theory Spec2Isabelle
  imports Complex_Main "HOL-Library.Log_Nat" "HOL-Library.Multiset" "HOL-Library.Product_Lexorder"
begin

section \<open>Python values\<close>

text \<open>
  A Python \<open>str\<close> is a sequence of Unicode code points, so a string is a list of
  code points. String literals of the source are ASCII and are written \<open>ascii ''...''\<close>.
\<close>

type_synonym pystr = "nat list"

definition ascii :: "string \<Rightarrow> pystr" where
  "ascii s = map of_char s"

text \<open>
  A Python \<open>float\<close> is a binary64 number. A finite one is represented by its exact
  value, a rational; the two infinities and NaN are separate values. Negative zero is
  not distinguished from zero: no comparison of the source tells them apart.
\<close>

datatype pyfloat = Finite rat | PosInf | NegInf | NaN

text \<open>The values that \<open>request.get_json()\<close> can return: what \<open>json.loads\<close> builds.
  A \<open>dict\<close> is the list of its items, keys distinct.\<close>

datatype pyval =
    PNone
  | PBool bool
  | PInt int
  | PFloat pyfloat
  | PStr pystr
  | PList "pyval list"
  | PDict "(pystr \<times> pyval) list"

text \<open>The result of \<open>int(value)\<close> or \<open>float(value)\<close> in \<open>validate_number\<close>.\<close>

datatype pynum = NInt int | NFloat pyfloat

datatype pyexn =
    ValueError | TypeError | OverflowError | KeyError | UnboundLocalError
  | AttributeError | BadRequest | OperationalError | IntegrityError

text \<open>\<open>sqlite3.OperationalError\<close> and \<open>sqlite3.IntegrityError\<close> derive from
  \<open>sqlite3.Error\<close>; the others do not.\<close>

fun is_sqlite3_Error :: "pyexn \<Rightarrow> bool" where
  "is_sqlite3_Error OperationalError = True"
| "is_sqlite3_Error IntegrityError = True"
| "is_sqlite3_Error _ = False"

text \<open>Truth value of an object, as \<open>if not data\<close> tests it.\<close>

fun truthy :: "pyval \<Rightarrow> bool" where
  "truthy PNone = False"
| "truthy (PBool b) = b"
| "truthy (PInt n) = (n \<noteq> 0)"
| "truthy (PFloat x) = (x \<noteq> Finite 0)"
| "truthy (PStr s) = (s \<noteq> [])"
| "truthy (PList xs) = (xs \<noteq> [])"
| "truthy (PDict d) = (d \<noteq> [])"

text \<open>\<open><\<close> on floats: every comparison with NaN is false.\<close>

fun float_lt :: "pyfloat \<Rightarrow> pyfloat \<Rightarrow> bool" where
  "float_lt NaN _ = False"
| "float_lt _ NaN = False"
| "float_lt (Finite a) (Finite b) = (a < b)"
| "float_lt (Finite a) PosInf = True"
| "float_lt (Finite a) NegInf = False"
| "float_lt PosInf _ = False"
| "float_lt NegInf NegInf = False"
| "float_lt NegInf _ = True"

text \<open>\<open><\<close> on numbers; Python compares an \<open>int\<close> with a \<open>float\<close> by value.\<close>

fun num_lt :: "pynum \<Rightarrow> pynum \<Rightarrow> bool" where
  "num_lt (NInt a) (NInt b) = (a < b)"
| "num_lt (NFloat x) (NFloat y) = float_lt x y"
| "num_lt (NInt a) (NFloat y) = float_lt (Finite (of_int a)) y"
| "num_lt (NFloat x) (NInt b) = float_lt x (Finite (of_int b))"

section \<open>Strings\<close>

text \<open>The code points for which \<open>str.isspace\<close> holds; \<open>str.strip()\<close> removes them and
  \<open>\s\<close> of \<open>re\<close> matches them.\<close>

definition py_isspace :: "nat \<Rightarrow> bool" where
  "py_isspace c \<longleftrightarrow>
     (9 \<le> c \<and> c \<le> 13) \<or> (28 \<le> c \<and> c \<le> 32) \<or> c = 133 \<or> c = 160 \<or> c = 5760
     \<or> (8192 \<le> c \<and> c \<le> 8202) \<or> c = 8232 \<or> c = 8233 \<or> c = 8239 \<or> c = 8287
     \<or> c = 12288"

definition strip :: "pystr \<Rightarrow> pystr" where
  "strip s = rev (dropWhile py_isspace (rev (dropWhile py_isspace s)))"

definition in_ranges :: "(nat \<times> nat) list \<Rightarrow> nat \<Rightarrow> bool" where
  "in_ranges rs c = list_ex (\<lambda>(lo, hi). lo \<le> c \<and> c \<le> hi) rs"

text \<open>The code points with \<open>Numeric_Type\<close> Digit or Decimal (Unicode 14, the table of
  CPython 3.11): those for which \<open>str.isdigit\<close> holds.\<close>

definition digit_ranges :: "(nat \<times> nat) list" where
  "digit_ranges =
   [(48, 57), (178, 179), (185, 185), (1632, 1641), (1776, 1785), (1984, 1993), (2406, 2415),
    (2534, 2543), (2662, 2671), (2790, 2799), (2918, 2927), (3046, 3055), (3174, 3183),
    (3302, 3311), (3430, 3439), (3558, 3567), (3664, 3673), (3792, 3801), (3872, 3881),
    (4160, 4169), (4240, 4249), (4969, 4977), (6112, 6121), (6160, 6169), (6470, 6479),
    (6608, 6618), (6784, 6793), (6800, 6809), (6992, 7001), (7088, 7097), (7232, 7241),
    (7248, 7257), (8304, 8304), (8308, 8313), (8320, 8329), (9312, 9320), (9332, 9340),
    (9352, 9360), (9450, 9450), (9461, 9469), (9471, 9471), (10102, 10110), (10112, 10120),
    (10122, 10130), (42528, 42537), (43216, 43225), (43264, 43273), (43472, 43481),
    (43504, 43513), (43600, 43609), (44016, 44025), (65296, 65305), (66720, 66729),
    (68160, 68163), (68912, 68921), (69216, 69224), (69714, 69722), (69734, 69743),
    (69872, 69881), (69942, 69951), (70096, 70105), (70384, 70393), (70736, 70745),
    (70864, 70873), (71248, 71257), (71360, 71369), (71472, 71481), (71904, 71913),
    (72016, 72025), (72784, 72793), (73040, 73049), (73120, 73129), (92768, 92777),
    (92864, 92873), (93008, 93017), (120782, 120831), (123200, 123209), (123632, 123641),
    (125264, 125273), (127232, 127242), (130032, 130041)]"

text \<open>The code points of category Nd (decimal digits). Every range starts at a digit
  zero and holds whole runs of ten, so the value of \<open>c\<close> in a range from \<open>lo\<close> is
  \<open>(c - lo) mod 10\<close>.\<close>

definition decimal_ranges :: "(nat \<times> nat) list" where
  "decimal_ranges =
   [(48, 57), (1632, 1641), (1776, 1785), (1984, 1993), (2406, 2415), (2534, 2543),
    (2662, 2671), (2790, 2799), (2918, 2927), (3046, 3055), (3174, 3183), (3302, 3311),
    (3430, 3439), (3558, 3567), (3664, 3673), (3792, 3801), (3872, 3881), (4160, 4169),
    (4240, 4249), (6112, 6121), (6160, 6169), (6470, 6479), (6608, 6617), (6784, 6793),
    (6800, 6809), (6992, 7001), (7088, 7097), (7232, 7241), (7248, 7257), (42528, 42537),
    (43216, 43225), (43264, 43273), (43472, 43481), (43504, 43513), (43600, 43609),
    (44016, 44025), (65296, 65305), (66720, 66729), (68912, 68921), (69734, 69743),
    (69872, 69881), (69942, 69951), (70096, 70105), (70384, 70393), (70736, 70745),
    (70864, 70873), (71248, 71257), (71360, 71369), (71472, 71481), (71904, 71913),
    (72016, 72025), (72784, 72793), (73040, 73049), (73120, 73129), (92768, 92777),
    (92864, 92873), (93008, 93017), (120782, 120831), (123200, 123209), (123632, 123641),
    (125264, 125273), (130032, 130041)]"

text \<open>\<open>str.isdigit\<close>: at least one character, and every character a digit.\<close>

definition isdigit :: "pystr \<Rightarrow> bool" where
  "isdigit s \<longleftrightarrow> s \<noteq> [] \<and> list_all (in_ranges digit_ranges) s"

definition ascii_digit :: "nat \<Rightarrow> bool" where
  "ascii_digit c \<longleftrightarrow> 48 \<le> c \<and> c \<le> 57"

text \<open>The number an ASCII digit string denotes.\<close>

definition digits_value :: "pystr \<Rightarrow> nat" where
  "digits_value s = foldl (\<lambda>a c. 10 * a + (c - 48)) 0 s"

text \<open>\<open>str(n)\<close> for a natural number.\<close>

fun str_of_nat :: "nat \<Rightarrow> pystr" where
  "str_of_nat n = (if n < 10 then [48 + n] else str_of_nat (n div 10) @ [48 + n mod 10])"

declare str_of_nat.simps [simp del]

text \<open>\<open>", ".join(xs)\<close>.\<close>

fun join_comma :: "pystr list \<Rightarrow> pystr" where
  "join_comma [] = []"
| "join_comma [x] = x"
| "join_comma (x # y # ys) = x @ ascii '', '' @ join_comma (y # ys)"

section \<open>Conversions to numbers\<close>

text \<open>\<open>round(x, 2)\<close> rounds the exact value of \<open>x\<close> to the nearest multiple of 1/100,
  a tie to the even one, and returns the binary64 number nearest to it; that result is
  represented here by the multiple of 1/100 itself. Infinities and NaN round to
  themselves.\<close>

definition round_half_even :: "rat \<Rightarrow> int" where
  "round_half_even r =
     (let f = \<lfloor>r\<rfloor>; d = r - of_int f
      in if d < 1 / 2 then f else if 1 / 2 < d then f + 1 else if even f then f else f + 1)"

fun py_round2 :: "pyfloat \<Rightarrow> pyfloat" where
  "py_round2 (Finite r) = Finite (of_int (round_half_even (r * 100)) / 100)"
| "py_round2 x = x"

text \<open>The binary64 number nearest to a rational (ties to even), or an infinity when
  that number is beyond the largest finite one.\<close>

definition to_double :: "rat \<Rightarrow> pyfloat" where
  "to_double r =
     (if r = 0 then Finite 0
      else
        let a = \<bar>r\<bar>;
            e0 = int (floorlog 2 (nat (fst (quotient_of a))))
                   - int (floorlog 2 (nat (snd (quotient_of a))));
            e = (if 2 powi e0 \<le> a then e0 else e0 - 1);
            u = 2 powi (max e (- 1022) - 52);
            v = of_int (round_half_even (a / u)) * u
        in if 2 ^ 1024 \<le> v then (if 0 < r then PosInf else NegInf)
           else Finite (sgn r * v))"

fun float_neg :: "pyfloat \<Rightarrow> pyfloat" where
  "float_neg (Finite r) = Finite (- r)"
| "float_neg PosInf = NegInf"
| "float_neg NegInf = PosInf"
| "float_neg NaN = NaN"

text \<open>Both \<open>int(str)\<close> and \<open>float(str)\<close> first replace every non-ASCII space by a
  blank and every non-ASCII decimal digit by its ASCII digit; any other non-ASCII
  character becomes \<open>?\<close> and ends the text.\<close>

definition decimal_digit_value :: "nat \<Rightarrow> nat option" where
  "decimal_digit_value c =
     (case find (\<lambda>(lo, hi). lo \<le> c \<and> c \<le> hi) decimal_ranges of
        None \<Rightarrow> None
      | Some (lo, hi) \<Rightarrow> Some ((c - lo) mod 10))"

fun to_ascii_decimal_and_space :: "pystr \<Rightarrow> pystr" where
  "to_ascii_decimal_and_space [] = []"
| "to_ascii_decimal_and_space (c # cs) =
     (if c < 127 then c # to_ascii_decimal_and_space cs
      else if py_isspace c then 32 # to_ascii_decimal_and_space cs
      else case decimal_digit_value c of
             Some d \<Rightarrow> (48 + d) # to_ascii_decimal_and_space cs
           | None \<Rightarrow> [63])"

text \<open>The whitespace of the C parsers: tab, line feed, vertical tab, form feed,
  carriage return, blank.\<close>

definition c_isspace :: "nat \<Rightarrow> bool" where
  "c_isspace c \<longleftrightarrow> (9 \<le> c \<and> c \<le> 13) \<or> c = 32"

definition split_sign :: "pystr \<Rightarrow> bool \<times> pystr" where
  "split_sign s =
     (case s of
        [] \<Rightarrow> (False, [])
      | c # r \<Rightarrow> if c = 45 then (True, r) else if c = 43 then (False, r) else (False, s))"

text \<open>\<open>int(s)\<close> in base 10: blanks, a sign, digits in groups separated by single
  underscores, blanks; at most 4300 digits. \<open>None\<close> is \<open>ValueError\<close>.\<close>

definition int_of_str :: "pystr \<Rightarrow> int option" where
  "int_of_str s =
     (let b = dropWhile c_isspace (to_ascii_decimal_and_space s);
          neg = fst (split_sign b);
          b1 = snd (split_sign b);
          body = takeWhile (\<lambda>c. ascii_digit c \<or> c = 95) b1;
          rest = dropWhile c_isspace (drop (length body) b1);
          ds = filter ascii_digit body
      in if body = [] \<or> hd body = 95 \<or> last body = 95
            \<or> list_ex (\<lambda>(x, y). x = 95 \<and> y = 95) (zip body (tl body))
            \<or> rest \<noteq> [] \<or> 4300 < length ds
         then None
         else Some (if neg then - int (digits_value ds) else int (digits_value ds)))"

text \<open>In \<open>float(s)\<close> an underscore must stand between two digits.\<close>

fun underscores_ok :: "nat \<Rightarrow> pystr \<Rightarrow> bool" where
  "underscores_ok prev [] = (prev \<noteq> 95)"
| "underscores_ok prev (c # cs) =
     ((if c = 95 then ascii_digit prev else if prev = 95 then ascii_digit c else True)
      \<and> underscores_ok c cs)"

definition to_lower :: "nat \<Rightarrow> nat" where
  "to_lower c = (if 65 \<le> c \<and> c \<le> 90 then c + 32 else c)"

definition decimal_float :: "bool \<Rightarrow> pystr \<Rightarrow> int \<Rightarrow> pyfloat" where
  "decimal_float neg ds e =
     (let x = to_double (of_nat (digits_value ds) * 10 powi e)
      in if neg then float_neg x else x)"

text \<open>\<open>float(s)\<close>: blanks, a sign, then \<open>inf\<close>, \<open>infinity\<close> or \<open>nan\<close> in any case, or
  a decimal number with an optional fraction and exponent. \<open>None\<close> is \<open>ValueError\<close>.\<close>

definition float_of_str :: "pystr \<Rightarrow> pyfloat option" where
  "float_of_str s0 =
     (let s1 = rev (dropWhile c_isspace (rev (dropWhile c_isspace (to_ascii_decimal_and_space s0))))
      in if s1 = [] \<or> \<not> underscores_ok 0 s1 then None
         else
           let s = filter (\<lambda>c. c \<noteq> 95) s1;
               neg = fst (split_sign s);
               b = snd (split_sign s);
               low = map to_lower b
           in if low = ascii ''inf'' \<or> low = ascii ''infinity''
              then Some (if neg then NegInf else PosInf)
              else if low = ascii ''nan'' then Some NaN
              else
                let ip = takeWhile ascii_digit b;
                    r1 = drop (length ip) b;
                    fp = (case r1 of [] \<Rightarrow> []
                          | c # t \<Rightarrow> if c = 46 then takeWhile ascii_digit t else []);
                    r2 = (case r1 of [] \<Rightarrow> []
                          | c # t \<Rightarrow> if c = 46 then dropWhile ascii_digit t else r1)
                in if ip @ fp = [] then None
                   else case r2 of
                     [] \<Rightarrow> Some (decimal_float neg (ip @ fp) (- int (length fp)))
                   | c # t \<Rightarrow>
                       if (c = 101 \<or> c = 69) \<and> snd (split_sign t) \<noteq> []
                          \<and> list_all ascii_digit (snd (split_sign t))
                       then Some (decimal_float neg (ip @ fp)
                              ((if fst (split_sign t) then - int (digits_value (snd (split_sign t)))
                                else int (digits_value (snd (split_sign t))))
                               - int (length fp)))
                       else None)"

text \<open>\<open>int(value)\<close>: a float is truncated toward zero; NaN raises \<open>ValueError\<close> and
  an infinity \<open>OverflowError\<close>.\<close>

fun py_int :: "pyval \<Rightarrow> pyexn + int" where
  "py_int PNone = Inl TypeError"
| "py_int (PBool b) = Inr (if b then 1 else 0)"
| "py_int (PInt n) = Inr n"
| "py_int (PFloat (Finite r)) = Inr (if r < 0 then \<lceil>r\<rceil> else \<lfloor>r\<rfloor>)"
| "py_int (PFloat NaN) = Inl ValueError"
| "py_int (PFloat x) = Inl OverflowError"
| "py_int (PStr s) = (case int_of_str s of None \<Rightarrow> Inl ValueError | Some n \<Rightarrow> Inr n)"
| "py_int (PList xs) = Inl TypeError"
| "py_int (PDict d) = Inl TypeError"

text \<open>\<open>float(value)\<close>: an \<open>int\<close> too large for a float raises \<open>OverflowError\<close>.\<close>

fun py_float :: "pyval \<Rightarrow> pyexn + pyfloat" where
  "py_float PNone = Inl TypeError"
| "py_float (PBool b) = Inr (Finite (if b then 1 else 0))"
| "py_float (PInt n) =
     (case to_double (of_int n) of Finite r \<Rightarrow> Inr (Finite r) | _ \<Rightarrow> Inl OverflowError)"
| "py_float (PFloat x) = Inr x"
| "py_float (PStr s) = (case float_of_str s of None \<Rightarrow> Inl ValueError | Some x \<Rightarrow> Inr x)"
| "py_float (PList xs) = Inl TypeError"
| "py_float (PDict d) = Inl TypeError"

section \<open>Validation rules\<close>

text \<open>\<open>VALIDATION_RULES\<close>: the two string fields have \<open>max_length\<close>, \<open>pattern\<close> and
  \<open>error_msg\<close>; the two numeric fields have \<open>min\<close>, \<open>max\<close> and \<open>error_msg\<close>.\<close>

datatype str_field = F_customer_name | F_item_name

datatype num_field = F_quantity | F_total_price

fun str_field_name :: "str_field \<Rightarrow> pystr" where
  "str_field_name F_customer_name = ascii ''customer_name''"
| "str_field_name F_item_name = ascii ''item_name''"

fun num_field_name :: "num_field \<Rightarrow> pystr" where
  "num_field_name F_quantity = ascii ''quantity''"
| "num_field_name F_total_price = ascii ''total_price''"

fun max_length :: "str_field \<Rightarrow> nat" where
  "max_length F_customer_name = 100"
| "max_length F_item_name = 200"

definition alnum :: "nat \<Rightarrow> bool" where
  "alnum c \<longleftrightarrow> (97 \<le> c \<and> c \<le> 122) \<or> (65 \<le> c \<and> c \<le> 90) \<or> (48 \<le> c \<and> c \<le> 57)"

text \<open>The character class of each \<open>pattern\<close>: \<open>[a-zA-Z0-9\s\.]\<close> and
  \<open>[a-zA-Z0-9\s\'"]\<close>.\<close>

fun pattern :: "str_field \<Rightarrow> nat \<Rightarrow> bool" where
  "pattern F_customer_name c = (alnum c \<or> py_isspace c \<or> c = 46)"
| "pattern F_item_name c = (alnum c \<or> py_isspace c \<or> c = 39 \<or> c = 34)"

fun str_error_msg :: "str_field \<Rightarrow> pystr" where
  "str_error_msg F_customer_name =
     ascii ''Customer name can only have letters, numbers, spaces and periods''"
| "str_error_msg F_item_name =
     ascii ''Item name can only have letters, numbers, spaces, and quotes''"

fun rule_min :: "num_field \<Rightarrow> pynum" where
  "rule_min F_quantity = NInt 1"
| "rule_min F_total_price = NFloat (Finite (1 / 100))"

fun rule_max :: "num_field \<Rightarrow> pynum" where
  "rule_max F_quantity = NInt 1000"
| "rule_max F_total_price = NFloat (Finite 1000000)"

fun num_error_msg :: "num_field \<Rightarrow> pystr" where
  "num_error_msg F_quantity = ascii ''Quantity must be between 1 and 1000''"
| "num_error_msg F_total_price = ascii ''Total price must be between 0.01 and 1,000,000.00''"

text \<open>\<open>re.match\<close> of \<open>^[...]+$\<close>: one or more characters of the class from the start,
  up to the end of the text or to a line feed that ends it.\<close>

definition re_match :: "(nat \<Rightarrow> bool) \<Rightarrow> pystr \<Rightarrow> bool" where
  "re_match cls s \<longleftrightarrow>
     (s \<noteq> [] \<and> list_all cls s)
     \<or> (2 \<le> length s \<and> last s = 10 \<and> list_all cls (butlast s))"

section \<open>The validator\<close>

definition sanitize_string :: "pyval \<Rightarrow> str_field \<Rightarrow> pystr option \<times> pystr list" where
  "sanitize_string v field_name =
     (case v of
        PStr s \<Rightarrow>
          let value = strip s
          in if value = [] then (None, [str_field_name field_name @ ascii '' cannot be empty''])
             else
               (Some value,
                (if max_length field_name < length value
                 then [str_field_name field_name @ ascii '' cannot exceed ''
                         @ str_of_nat (max_length field_name) @ ascii '' characters'']
                 else [])
                @ (if \<not> re_match (pattern field_name) value then [str_error_msg field_name]
                   else []))
      | _ \<Rightarrow> (None, [str_field_name field_name @ ascii '' should be a string'']))"

text \<open>\<open>validate_number\<close> catches \<open>ValueError\<close> and \<open>TypeError\<close> only: any other
  exception of the conversion leaves the function.\<close>

definition validate_number :: "pyval \<Rightarrow> num_field \<Rightarrow> pyexn + (pynum option \<times> pystr list)" where
  "validate_number v field_name =
     (case (case field_name of
              F_quantity \<Rightarrow> map_sum id NInt (py_int v)
            | F_total_price \<Rightarrow> map_sum id (\<lambda>x. NFloat (py_round2 x)) (py_float v)) of
        Inr num \<Rightarrow>
          if num_lt num (rule_min field_name) \<or> num_lt (rule_max field_name) num
          then Inr (None, [num_error_msg field_name])
          else Inr (Some num, [])
      | Inl e \<Rightarrow>
          if e = ValueError \<or> e = TypeError
          then Inr (None, [ascii ''Invalid '' @ num_field_name field_name @ ascii '' format''])
          else Inl e)"

text \<open>The dict \<open>validated_data\<close>: a field is present once its check has passed.\<close>

record validated_data =
  v_customer_name :: "pystr option"
  v_item_name :: "pystr option"
  v_quantity :: "pynum option"
  v_total_price :: "pynum option"

definition required_fields :: "pystr list" where
  "required_fields =
     [ascii ''customer_name'', ascii ''item_name'', ascii ''quantity'', ascii ''total_price'']"

text \<open>\<open>data.get(field)\<close>.\<close>

definition dict_get :: "(pystr \<times> pyval) list \<Rightarrow> pystr \<Rightarrow> pyval" where
  "dict_get d k = (case map_of d k of None \<Rightarrow> PNone | Some v \<Rightarrow> v)"

definition validate_order_data ::
  "pyval \<Rightarrow> pyexn + (validated_data option \<times> pystr list)" where
  "validate_order_data data =
     (case data of
        PDict d \<Rightarrow>
          let missing_fields = filter (\<lambda>field. map_of d field = None) required_fields
          in if missing_fields \<noteq> []
             then Inr (None, [ascii ''Missing required fields: '' @ join_comma missing_fields])
             else
               let c = sanitize_string (dict_get d (ascii ''customer_name'')) F_customer_name;
                   i = sanitize_string (dict_get d (ascii ''item_name'')) F_item_name
               in (case validate_number (dict_get d (ascii ''quantity'')) F_quantity of
                     Inl e \<Rightarrow> Inl e
                   | Inr q \<Rightarrow>
                       (case validate_number (dict_get d (ascii ''total_price'')) F_total_price of
                          Inl e \<Rightarrow> Inl e
                        | Inr p \<Rightarrow>
                            let errors = snd c @ snd i @ snd q @ snd p
                            in if errors \<noteq> [] then Inr (None, errors)
                               else Inr (Some \<lparr>v_customer_name = fst c, v_item_name = fst i,
                                              v_quantity = fst q, v_total_price = fst p\<rparr>, [])))
      | _ \<Rightarrow> Inr (None, [ascii ''Invalid request format. Expected JSON object'']))"

section \<open>The orders table\<close>

text \<open>A row of table \<open>orders\<close>. \<open>created_at\<close> is the text \<open>CURRENT_TIMESTAMP\<close> gives, which
  has a resolution of one second and sorts as the time does: it is the number of the
  second. The columns \<open>quantity\<close> and \<open>total_price\<close> hold an integer or a real.\<close>

record order =
  order_id :: nat
  customer_name :: pystr
  item_name :: pystr
  quantity :: pynum
  total_price :: pynum
  created_at :: nat

text \<open>The database file: whether table \<open>orders\<close> exists, its rows in rowid order, and
  the largest rowid ever used, which \<open>AUTOINCREMENT\<close> keeps in \<open>sqlite_sequence\<close>.\<close>

record store =
  has_table :: bool
  rows :: "order list"
  seq :: nat

definition fresh_db :: store where
  "fresh_db = \<lparr>has_table = False, rows = [], seq = 0\<rparr>"

text \<open>What \<open>sqlite3\<close> binds for a Python number: an \<open>int\<close> outside 64 bits raises
  \<open>OverflowError\<close>, and NaN is bound as NULL (\<open>None\<close> here).\<close>

fun bind_number :: "pynum \<Rightarrow> pyexn + pynum option" where
  "bind_number (NInt n) =
     (if - (2 ^ 63) \<le> n \<and> n < 2 ^ 63 then Inr (Some (NInt n)) else Inl OverflowError)"
| "bind_number (NFloat NaN) = Inr None"
| "bind_number (NFloat x) = Inr (Some (NFloat x))"

text \<open>Column affinity: an \<open>INTEGER\<close> column turns a real with an integral value into
  an integer, a \<open>REAL\<close> column turns an integer into a real.\<close>

fun integer_affinity :: "pynum \<Rightarrow> pynum" where
  "integer_affinity (NFloat (Finite r)) =
     (if of_int \<lfloor>r\<rfloor> = r \<and> - (2 ^ 63) < r \<and> r < 2 ^ 63 - 1 then NInt \<lfloor>r\<rfloor>
      else NFloat (Finite r))"
| "integer_affinity x = x"

fun real_affinity :: "pynum \<Rightarrow> pynum" where
  "real_affinity (NInt n) = NFloat (to_double (of_int n))"
| "real_affinity x = x"

text \<open>\<open>INSERT INTO orders (customer_name, item_name, quantity, total_price) VALUES
  (?, ?, ?, ?)\<close> at time \<open>now\<close>. Every column is \<open>NOT NULL\<close>: a NULL raises
  \<open>IntegrityError\<close>. The new rowid is one more than the largest ever used, and when that
  was the largest 64-bit integer the insert raises \<open>OperationalError\<close>. The result is
  \<open>lastrowid\<close> and the new database.\<close>

definition insert_order ::
  "nat \<Rightarrow> pystr \<Rightarrow> pystr \<Rightarrow> pynum \<Rightarrow> pynum \<Rightarrow> store \<Rightarrow> pyexn + (nat \<times> store)" where
  "insert_order now c i q p db =
     (if \<not> has_table db then Inl OperationalError
      else case bind_number q of
        Inl e \<Rightarrow> Inl e
      | Inr bq \<Rightarrow>
         (case bind_number p of
            Inl e \<Rightarrow> Inl e
          | Inr bp \<Rightarrow>
              (case (bq, bp) of
                 (Some qv, Some pv) \<Rightarrow>
                   if 2 ^ 63 - 1 \<le> seq db then Inl OperationalError
                   else
                     Inr (Suc (seq db),
                          db\<lparr>rows := rows db @
                                 [\<lparr>order_id = Suc (seq db), customer_name = c,
                                   item_name = i, quantity = integer_affinity qv,
                                   total_price = real_affinity pv, created_at = now\<rparr>],
                             seq := Suc (seq db)\<rparr>)
               | _ \<Rightarrow> Inl IntegrityError)))"

definition sample_orders :: "(pystr \<times> pystr \<times> pynum \<times> pynum) list" where
  "sample_orders =
     [(ascii ''Kamrul Islam'', ascii ''MSI Gaming Laptop'', NInt 1, NFloat (Finite (129999 / 100))),
      (ascii ''Alif'', ascii ''Ajazz Ak870 Pro Keybaord'', NInt 2, NFloat (Finite (4998 / 100))),
      (ascii ''Fatema Tuz Johra'', ascii ''Dareu Ak950Pro Gaming Mouse'', NInt 1,
       NFloat (Finite (5999 / 100))),
      (ascii ''Riha'', ascii ''Walton Monitor 27 inche'', NInt 2, NFloat (Finite (59998 / 100))),
      (ascii ''Mehedi HasaN'', ascii ''USB-C Cable'', NInt 3, NFloat (Finite (2997 / 100)))]"

text \<open>\<open>executemany\<close>: one insert per tuple, the \<open>k\<close>-th at time \<open>clock k\<close>; the first
  error ends it.\<close>

fun executemany ::
  "(nat \<Rightarrow> nat) \<Rightarrow> nat \<Rightarrow> (pystr \<times> pystr \<times> pynum \<times> pynum) list \<Rightarrow> store \<Rightarrow> pyexn + store" where
  "executemany clock k [] db = Inr db"
| "executemany clock k ((c, i, q, p) # xs) db =
     (case insert_order (clock k) c i q p db of
        Inl e \<Rightarrow> Inl e
      | Inr (n, db') \<Rightarrow> executemany clock (Suc k) xs db')"

text \<open>\<open>init_database\<close>: \<open>CREATE TABLE IF NOT EXISTS\<close>, then the sample rows when the
  table is empty.\<close>

definition init_database :: "(nat \<Rightarrow> nat) \<Rightarrow> store \<Rightarrow> pyexn + store" where
  "init_database clock db =
     (let db1 = db\<lparr>has_table := True\<rparr>
      in if length (rows db1) = 0 then executemany clock 0 sample_orders db1 else Inr db1)"

section \<open>The endpoints\<close>

text \<open>The body of a response, as \<open>jsonify\<close> receives it, and the keys of the JSON object
  it makes (none for the array of \<open>GET /orders\<close>).\<close>

datatype body =
    Json_orders "order list"
  | Json_order order
  | Json_error pystr
  | Json_errors "pystr list"
  | Json_created pystr nat

fun body_keys :: "body \<Rightarrow> string list" where
  "body_keys (Json_orders os) = []"
| "body_keys (Json_order r) =
     [''id'', ''customer_name'', ''item_name'', ''quantity'', ''total_price'', ''created_at'']"
| "body_keys (Json_error m) = [''error'']"
| "body_keys (Json_errors ms) = [''errors'']"
| "body_keys (Json_created m n) = [''message'', ''order_id'']"

text \<open>A view function returns a body with a status, or raises.\<close>

datatype outcome = Response nat body | Raised pyexn

text \<open>The local variable \<open>conn\<close> of a view function: not assigned, \<open>None\<close>, an open
  connection, or a closed one.\<close>

datatype conn_state = Unbound | Is_None | Opened | Closed

record result =
  outcome :: outcome
  conn :: conn_state

text \<open>What can fail outside the program: \<open>sqlite3.connect\<close> raises when the file cannot
  be opened.\<close>

record env =
  connect_fails :: bool

text \<open>\<open>finally: conn.close()\<close>. Reading a variable that was never assigned raises
  \<open>UnboundLocalError\<close>, and an exception raised in a \<open>finally\<close> block replaces the
  \<open>return\<close> that was under way.\<close>

definition finally_close :: "result \<Rightarrow> result" where
  "finally_close r =
     (case conn r of
        Unbound \<Rightarrow> r\<lparr>outcome := Raised UnboundLocalError\<rparr>
      | Is_None \<Rightarrow> r\<lparr>outcome := Raised AttributeError\<rparr>
      | Opened \<Rightarrow> r\<lparr>conn := Closed\<rparr>
      | Closed \<Rightarrow> r)"

text \<open>\<open>finally: if conn: conn.close()\<close>.\<close>

definition finally_close_if_conn :: "result \<Rightarrow> result" where
  "finally_close_if_conn r =
     (case conn r of
        Unbound \<Rightarrow> r\<lparr>outcome := Raised UnboundLocalError\<rparr>
      | Is_None \<Rightarrow> r
      | Opened \<Rightarrow> r\<lparr>conn := Closed\<rparr>
      | Closed \<Rightarrow> r)"

text \<open>\<open>ORDER BY created_at DESC\<close>: the query names no second key, and SQLite returns
  rows of equal \<open>created_at\<close> in the order of the table scan, by ascending rowid.\<close>

definition order_by_created_at_desc :: "order list \<Rightarrow> order list" where
  "order_by_created_at_desc rs = sort_key (\<lambda>r. - int (created_at r)) rs"

text \<open>The \<open>try\<close> and \<open>except\<close> parts of \<open>get_orders\<close>.\<close>

definition get_orders_try :: "env \<Rightarrow> store \<Rightarrow> result" where
  "get_orders_try e db =
     (if connect_fails e
      then \<lparr>outcome = Response 500 (Json_error (ascii ''Failed to fetch'')), conn = Unbound\<rparr>
      else if \<not> has_table db
      then \<lparr>outcome = Response 500 (Json_error (ascii ''Failed to fetch'')), conn = Opened\<rparr>
      else \<lparr>outcome = Response 200 (Json_orders (order_by_created_at_desc (rows db))),
            conn = Opened\<rparr>)"

definition get_orders :: "env \<Rightarrow> store \<Rightarrow> result" where
  "get_orders e db = finally_close (get_orders_try e db)"

text \<open>\<open>WHERE id = ?\<close> with the text of the URL as parameter. The column has integer
  affinity, so a text that is an integer literal is compared as that number, as a real
  when it is beyond 64 bits, which equals no rowid; any other text equals no integer.
  \<open>get_order\<close> passes only texts for which \<open>isdigit\<close> holds: they are ASCII digit
  strings or hold a non-ASCII character.\<close>

definition id_equals_text :: "nat \<Rightarrow> pystr \<Rightarrow> bool" where
  "id_equals_text n s \<longleftrightarrow>
     s \<noteq> [] \<and> list_all ascii_digit s \<and> digits_value s < 2 ^ 63 \<and> digits_value s = n"

text \<open>The \<open>try\<close> and \<open>except\<close> parts of \<open>get_order\<close>.\<close>

definition get_order_try :: "env \<Rightarrow> store \<Rightarrow> pystr \<Rightarrow> result" where
  "get_order_try e db oid =
     (if \<not> isdigit oid
      then \<lparr>outcome = Response 400 (Json_error (ascii ''Invalid order ID format'')),
             conn = Unbound\<rparr>
      else if connect_fails e
      then \<lparr>outcome = Response 500 (Json_error (ascii ''Failed to fetch details'')),
             conn = Unbound\<rparr>
      else if \<not> has_table db
      then \<lparr>outcome = Response 500 (Json_error (ascii ''Failed to fetch details'')),
             conn = Opened\<rparr>
      else case find (\<lambda>r. id_equals_text (order_id r) oid) (rows db) of
             None \<Rightarrow> \<lparr>outcome = Response 404 (Json_error (ascii ''Order not found'')),
                       conn = Opened\<rparr>
           | Some order \<Rightarrow> \<lparr>outcome = Response 200 (Json_order order), conn = Opened\<rparr>)"

definition get_order :: "env \<Rightarrow> store \<Rightarrow> pystr \<Rightarrow> result" where
  "get_order e db oid = finally_close (get_order_try e db oid)"

text \<open>\<open>request.get_json()\<close> returns the parsed body, or raises an HTTP exception of
  Werkzeug (a body that is not JSON), which is an \<open>Exception\<close>.\<close>

datatype get_json = Get_json_raises | Get_json_returns pyval

text \<open>The two \<open>except\<close> clauses of \<open>create_order\<close>.\<close>

definition create_order_except :: "pyexn \<Rightarrow> outcome" where
  "create_order_except e =
     (if is_sqlite3_Error e then Response 500 (Json_error (ascii ''Database error occurred''))
      else Response 500 (Json_error (ascii ''Failed to create the order'')))"

text \<open>The arguments of \<open>cursor.execute\<close>: a key that \<open>validated_data\<close> lacks raises
  \<open>KeyError\<close>, and subscripting \<open>None\<close> raises \<open>TypeError\<close>.\<close>

definition insert_validated ::
  "nat \<Rightarrow> validated_data option \<Rightarrow> store \<Rightarrow> pyexn + (nat \<times> store)" where
  "insert_validated now vd db =
     (case vd of
        None \<Rightarrow> Inl TypeError
      | Some v \<Rightarrow>
         (case (v_customer_name v, v_item_name v, v_quantity v, v_total_price v) of
            (Some c, Some i, Some q, Some p) \<Rightarrow> insert_order now c i q p db
          | _ \<Rightarrow> Inl KeyError))"

text \<open>The \<open>try\<close> and \<open>except\<close> parts of \<open>create_order\<close>, which starts with
  \<open>conn = None\<close>; \<open>now\<close> is the time of the insert.\<close>

definition create_order_try :: "env \<Rightarrow> nat \<Rightarrow> get_json \<Rightarrow> store \<Rightarrow> result \<times> store" where
  "create_order_try e now req db =
     (case req of
        Get_json_raises \<Rightarrow> (\<lparr>outcome = create_order_except BadRequest, conn = Is_None\<rparr>, db)
      | Get_json_returns data \<Rightarrow>
          if \<not> truthy data
          then (\<lparr>outcome = Response 400 (Json_error (ascii ''No provided data'')),
                 conn = Is_None\<rparr>, db)
          else (case validate_order_data data of
            Inl x \<Rightarrow> (\<lparr>outcome = create_order_except x, conn = Is_None\<rparr>, db)
          | Inr (validated, errors) \<Rightarrow>
              if errors \<noteq> []
              then (\<lparr>outcome = Response 400 (Json_errors errors), conn = Is_None\<rparr>, db)
              else if connect_fails e
              then (\<lparr>outcome = create_order_except OperationalError, conn = Is_None\<rparr>, db)
              else (case insert_validated now validated db of
                Inl x \<Rightarrow> (\<lparr>outcome = create_order_except x, conn = Opened\<rparr>, db)
              | Inr (n, db') \<Rightarrow>
                  (\<lparr>outcome = Response 201
                                (Json_created (ascii ''Order successfully created'') n),
                    conn = Opened\<rparr>, db'))))"

definition create_order :: "env \<Rightarrow> nat \<Rightarrow> get_json \<Rightarrow> store \<Rightarrow> result \<times> store" where
  "create_order e now req db =
     (finally_close_if_conn (fst (create_order_try e now req db)),
      snd (create_order_try e now req db))"

text \<open>The databases the program can hold: the one \<open>init_database\<close> makes from no file,
  and any that a request to \<open>create_order\<close> leaves.\<close>

inductive reachable :: "store \<Rightarrow> bool" where
  init: "init_database clock fresh_db = Inr db \<Longrightarrow> reachable db"
| create: "reachable db \<Longrightarrow> create_order e now req db = (r, db') \<Longrightarrow> reachable db'"

section \<open>Notions of the specification\<close>

text \<open>The database after the first start, every sample row inserted in second 0.\<close>

definition seeded_db :: store where
  "seeded_db = (case init_database (\<lambda>k. 0) fresh_db of Inr db \<Rightarrow> db | Inl e \<Rightarrow> fresh_db)"

text \<open>The Python value a stored number is read back as.\<close>

fun pyval_of_num :: "pynum \<Rightarrow> pyval" where
  "pyval_of_num (NInt n) = PInt n"
| "pyval_of_num (NFloat x) = PFloat x"

text \<open>A row passes the field checks of the validator when each of its four fields is
  accepted by the check of that field, unchanged.\<close>

definition passes_field_checks :: "order \<Rightarrow> bool" where
  "passes_field_checks r \<longleftrightarrow>
     sanitize_string (PStr (customer_name r)) F_customer_name = (Some (customer_name r), [])
     \<and> sanitize_string (PStr (item_name r)) F_item_name = (Some (item_name r), [])
     \<and> validate_number (pyval_of_num (quantity r)) F_quantity = Inr (Some (quantity r), [])
     \<and> validate_number (pyval_of_num (total_price r)) F_total_price
         = Inr (Some (total_price r), [])"

text \<open>The field constraints of the data model, as the specification words them: each
  name has from 1 to its maximal number of characters, all of its character class; the
  quantity is an integer from 1 to 1000; the price is a number from 0.01 to 1,000,000
  with two decimals.\<close>

definition data_model_constraints :: "order \<Rightarrow> bool" where
  "data_model_constraints r \<longleftrightarrow>
     1 \<le> length (customer_name r) \<and> length (customer_name r) \<le> 100
     \<and> list_all (pattern F_customer_name) (customer_name r)
     \<and> 1 \<le> length (item_name r) \<and> length (item_name r) \<le> 200
     \<and> list_all (pattern F_item_name) (item_name r)
     \<and> (case quantity r of NInt n \<Rightarrow> 1 \<le> n \<and> n \<le> 1000 | NFloat x \<Rightarrow> False)
     \<and> (case total_price r of
          NFloat (Finite x) \<Rightarrow> 1 / 100 \<le> x \<and> x \<le> 1000000 \<and> of_int \<lfloor>x * 100\<rfloor> = x * 100
        | _ \<Rightarrow> False)"

text \<open>The order of \<open>listAll\<close> as the specification words it: by \<open>created_at\<close>
  descending, rows of equal \<open>created_at\<close> by \<open>id\<close> descending.\<close>

definition listAll_spec :: "order list \<Rightarrow> order list" where
  "listAll_spec rs = rev (sort_key (\<lambda>r. (created_at r, order_id r)) rs)"

text \<open>The body \<open>{"customer_name": c, "item_name": i, "quantity": q, "total_price": p}\<close>.\<close>

definition order_json :: "pyval \<Rightarrow> pyval \<Rightarrow> pyval \<Rightarrow> pyval \<Rightarrow> pyval" where
  "order_json c i q p =
     PDict [(ascii ''customer_name'', c), (ascii ''item_name'', i), (ascii ''quantity'', q),
            (ascii ''total_price'', p)]"

text \<open>A valid request to create an order, and the database after three of them, made
  at the times \<open>t1\<close>, \<open>t2\<close> and \<open>t3\<close> on the database of the first start.\<close>

definition bob_order :: get_json where
  "bob_order =
     Get_json_returns (order_json (PStr (ascii '' Bob '')) (PStr (ascii ''Widget'')) (PInt 1)
       (PFloat (Finite (999 / 100))))"

definition three_creates :: "nat \<Rightarrow> nat \<Rightarrow> nat \<Rightarrow> store" where
  "three_creates t1 t2 t3 =
     snd (create_order \<lparr>connect_fails = False\<rparr> t3 bob_order
       (snd (create_order \<lparr>connect_fails = False\<rparr> t2 bob_order
         (snd (create_order \<lparr>connect_fails = False\<rparr> t1 bob_order seeded_db)))))"

text \<open>The keys of the JSON object a view function answers with.\<close>

fun outcome_keys :: "outcome \<Rightarrow> string list" where
  "outcome_keys (Response n b) = body_keys b"
| "outcome_keys (Raised x) = []"

section \<open>Properties\<close>

subsection \<open>The first start\<close>

lemma init_database_fresh:
  "init_database clock fresh_db =
     Inr \<lparr>has_table = True,
          rows = map (\<lambda>(k, c, i, q, p). \<lparr>order_id = Suc k, customer_name = c, item_name = i,
                     quantity = q, total_price = p, created_at = clock k\<rparr>)
                   (zip [0..<5] sample_orders),
          seq = 5\<rparr>"
  by (simp add: init_database_def fresh_db_def sample_orders_def insert_order_def upt_rec)

lemma reachable_seeded_db: "reachable seeded_db"
  unfolding seeded_db_def
  by (rule reachable.init [of "\<lambda>k. 0"]) (simp add: init_database_fresh)

lemma has_table_seeded_db: "has_table seeded_db"
  by (simp add: seeded_db_def init_database_fresh)

subsection \<open>Looking an order up\<close>

lemma find_None_no_ascii:
  "\<not> list_all ascii_digit oid \<Longrightarrow> find (\<lambda>r. id_equals_text (order_id r) oid) rs = None"
  by (simp add: find_None_iff id_equals_text_def)

lemma rows_seeded_db:
  "map order_id (rows seeded_db) = [1, 2, 3, 4, 5]"
  by (simp add: seeded_db_def init_database_fresh sample_orders_def upt_rec)

lemma ascii_digit_isdigit: "s \<noteq> [] \<Longrightarrow> list_all ascii_digit s \<Longrightarrow> isdigit s"
  by (auto simp: isdigit_def list_all_iff ascii_digit_def in_ranges_def digit_ranges_def)

lemma find_None_no_id:
  "\<forall>r\<in>set rs. order_id r \<noteq> digits_value oid \<Longrightarrow>
     find (\<lambda>r. id_equals_text (order_id r) oid) rs = None"
  by (auto simp: find_None_iff id_equals_text_def)

lemma get_order_no_match:
  "isdigit oid \<Longrightarrow> \<not> connect_fails e \<Longrightarrow> has_table db \<Longrightarrow>
   find (\<lambda>r. id_equals_text (order_id r) oid) (rows db) = None \<Longrightarrow>
   get_order e db oid =
     \<lparr>outcome = Response 404 (Json_error (ascii ''Order not found'')), conn = Closed\<rparr>"
  by (simp add: get_order_def get_order_try_def finally_close_def)

text \<open>No handler leaves a connection open, and \<open>create_order\<close> never raises.\<close>

lemma handlers_close:
  "conn (get_orders e db) \<noteq> Opened" "conn (get_order e db oid) \<noteq> Opened"
  "conn (fst (create_order e now req db)) \<noteq> Opened"
  "\<forall>x. outcome (fst (create_order e now req db)) \<noteq> Raised x"
  by (auto simp: get_orders_def get_orders_try_def get_order_def get_order_try_def
      create_order_def create_order_try_def finally_close_def finally_close_if_conn_def
      create_order_except_def
      split: option.splits get_json.splits sum.splits prod.splits if_splits)

text \<open>
  Claim C4. Every operation releases its connection on every exit path and the cleanup
  never raises, also where no connection was opened. The code does not do this in the two
  \<open>GET\<close> handlers: their \<open>finally\<close> block calls \<open>conn.close()\<close> although \<open>conn\<close> is
  unassigned after an early return for a malformed id and after a failed
  \<open>sqlite3.connect\<close>, so the block raises \<open>UnboundLocalError\<close> and the response prepared
  in the \<open>try\<close> or \<open>except\<close> part is lost.
\<close>

theorem get_handlers_finally_raises:
  "get_order e db (ascii ''abc'') = \<lparr>outcome = Raised UnboundLocalError, conn = Unbound\<rparr>
   \<and> get_orders \<lparr>connect_fails = True\<rparr> db
       = \<lparr>outcome = Raised UnboundLocalError, conn = Unbound\<rparr>
   \<and> get_order \<lparr>connect_fails = True\<rparr> db (ascii ''7'')
       = \<lparr>outcome = Raised UnboundLocalError, conn = Unbound\<rparr>"
  by (simp add: get_order_def get_order_try_def get_orders_def get_orders_try_def
      finally_close_def isdigit_def in_ranges_def digit_ranges_def ascii_def)

text \<open>
  Claim C10. \<open>str.isdigit\<close> accepts digits outside ASCII, such as superscript two
  (code point 178) and Arabic-Indic five (code point 1637). For an id that \<open>isdigit\<close>
  accepts and that holds such a character, \<open>get_order\<close> does not take the malformed-id
  branch: it queries the table, no row matches, and the answer is 404.
\<close>

theorem get_order_non_ascii_digit:
  assumes "isdigit oid" and "\<not> list_all ascii_digit oid"
    and "\<not> connect_fails e" and "has_table db"
  shows "get_order_try e db oid
           \<noteq> \<lparr>outcome = Response 400 (Json_error (ascii ''Invalid order ID format'')),
               conn = Unbound\<rparr>
         \<and> get_order e db oid =
             \<lparr>outcome = Response 404 (Json_error (ascii ''Order not found'')), conn = Closed\<rparr>"
  using assms
  by (simp add: get_order_def get_order_try_def finally_close_def find_None_no_ascii)

theorem get_order_non_ascii_digit_witness:
  "isdigit [178] \<and> \<not> list_all ascii_digit [178]
   \<and> isdigit [1637] \<and> \<not> list_all ascii_digit [1637]
   \<and> get_order \<lparr>connect_fails = False\<rparr> seeded_db [178] =
        \<lparr>outcome = Response 404 (Json_error (ascii ''Order not found'')), conn = Closed\<rparr>
   \<and> get_order \<lparr>connect_fails = False\<rparr> seeded_db [1637] =
        \<lparr>outcome = Response 404 (Json_error (ascii ''Order not found'')), conn = Closed\<rparr>"
proof -
  have d: "isdigit [178]" "isdigit [1637]"
    by (simp_all add: isdigit_def in_ranges_def digit_ranges_def)
  have a: "\<not> list_all ascii_digit [178]" "\<not> list_all ascii_digit [1637]"
    by (simp_all add: ascii_digit_def)
  show ?thesis
    using d a
      get_order_non_ascii_digit [OF d(1) a(1) _ has_table_seeded_db, of "\<lparr>connect_fails = False\<rparr>"]
      get_order_non_ascii_digit [OF d(2) a(2) _ has_table_seeded_db, of "\<lparr>connect_fails = False\<rparr>"]
    by simp
qed

text \<open>What the \<open>try\<close> block of \<open>get_order\<close> chooses, and what the handler answers for an
  id of ASCII digits that is the id of no row.\<close>

lemma get_order_try_branches:
  "(\<not> isdigit oid \<longrightarrow>
      get_order_try e db oid =
        \<lparr>outcome = Response 400 (Json_error (ascii ''Invalid order ID format'')),
         conn = Unbound\<rparr>)
   \<and> (oid \<noteq> [] \<and> list_all ascii_digit oid \<and> \<not> connect_fails e \<and> has_table db
        \<and> (\<forall>r\<in>set (rows db). order_id r \<noteq> digits_value oid) \<longrightarrow>
      get_order e db oid =
        \<lparr>outcome = Response 404 (Json_error (ascii ''Order not found'')), conn = Closed\<rparr>)"
proof (intro conjI impI)
  assume "\<not> isdigit oid"
  then show "get_order_try e db oid =
      \<lparr>outcome = Response 400 (Json_error (ascii ''Invalid order ID format'')),
       conn = Unbound\<rparr>"
    by (simp add: get_order_try_def)
next
  assume a: "oid \<noteq> [] \<and> list_all ascii_digit oid \<and> \<not> connect_fails e \<and> has_table db
        \<and> (\<forall>r\<in>set (rows db). order_id r \<noteq> digits_value oid)"
  then have d: "isdigit oid"
    by (simp add: ascii_digit_isdigit)
  from a have n: "find (\<lambda>r. id_equals_text (order_id r) oid) (rows db) = None"
    by (simp add: find_None_no_id)
  from a show "get_order e db oid =
      \<lparr>outcome = Response 404 (Json_error (ascii ''Order not found'')), conn = Closed\<rparr>"
    by (intro get_order_no_match d n) simp_all
qed

text \<open>For an id that \<open>str.isdigit\<close> rejects the handler raises, and it answers 400 for no
  id at all.\<close>

lemma get_order_not_isdigit:
  "\<not> isdigit oid \<Longrightarrow>
     get_order e db oid = \<lparr>outcome = Raised UnboundLocalError, conn = Unbound\<rparr>"
  by (simp add: get_order_def get_order_try_def finally_close_def)

lemma get_order_never_400: "outcome (get_order e db oid) \<noteq> Response 400 b"
proof (cases "isdigit oid")
  case True
  then show ?thesis
    by (simp add: get_order_def get_order_try_def finally_close_def split: option.splits)
next
  case False
  then show ?thesis by (simp add: get_order_not_isdigit)
qed

text \<open>
  Claim C3. For every id that is not made of decimal digits, such as \<open>abc\<close>, \<open>get_order\<close>
  answers with the malformed-id error and status 400; for every id of digits that is the
  id of no row, such as \<open>999999\<close>, it answers 404. The code does the second and not the
  first: for \<open>abc\<close> the \<open>try\<close> block returns the answer with status 400, then the
  \<open>finally\<close> block calls \<open>conn.close()\<close> on the unassigned \<open>conn\<close> and raises
  \<open>UnboundLocalError\<close>, which replaces the answer. \<open>get_order\<close> answers 400 for no id.
\<close>

theorem get_order_malformed_id_lost:
  "\<not> isdigit (ascii ''abc'')
   \<and> get_order_try e db (ascii ''abc'') =
        \<lparr>outcome = Response 400 (Json_error (ascii ''Invalid order ID format'')),
         conn = Unbound\<rparr>
   \<and> get_order e db (ascii ''abc'') = \<lparr>outcome = Raised UnboundLocalError, conn = Unbound\<rparr>
   \<and> outcome (get_order e db oid) \<noteq> Response 400 b
   \<and> get_order \<lparr>connect_fails = False\<rparr> seeded_db (ascii ''999999'') =
        \<lparr>outcome = Response 404 (Json_error (ascii ''Order not found'')), conn = Closed\<rparr>"
proof -
  have n: "\<not> isdigit (ascii ''abc'')"
    by (simp add: isdigit_def in_ranges_def digit_ranges_def ascii_def)
  have t: "get_order_try e db (ascii ''abc'') =
        \<lparr>outcome = Response 400 (Json_error (ascii ''Invalid order ID format'')),
         conn = Unbound\<rparr>"
    using n by (simp add: get_order_try_def)
  have a: "list_all ascii_digit (ascii ''999999'')" "ascii ''999999'' \<noteq> []"
    by (simp_all add: ascii_digit_def ascii_def)
  have v: "digits_value (ascii ''999999'') = 999999"
    by (simp add: digits_value_def ascii_def)
  have r: "\<forall>r\<in>set (rows seeded_db). order_id r \<noteq> digits_value (ascii ''999999'')"
  proof
    fix r assume "r \<in> set (rows seeded_db)"
    then have "order_id r \<in> set (map order_id (rows seeded_db))" by simp
    then show "order_id r \<noteq> digits_value (ascii ''999999'')"
      unfolding rows_seeded_db v by auto
  qed
  have f: "get_order \<lparr>connect_fails = False\<rparr> seeded_db (ascii ''999999'') =
        \<lparr>outcome = Response 404 (Json_error (ascii ''Order not found'')), conn = Closed\<rparr>"
    by (rule get_order_no_match [OF ascii_digit_isdigit [OF a(2) a(1)] _ has_table_seeded_db
          find_None_no_id [OF r]]) simp
  from n t get_order_not_isdigit [OF n] get_order_never_400 f show ?thesis by simp
qed

subsection \<open>The validator\<close>

lemma validate_order_data_present:
  assumes "map_of d (ascii ''customer_name'') = Some c" and "map_of d (ascii ''item_name'') = Some i"
    and "map_of d (ascii ''quantity'') = Some q" and "map_of d (ascii ''total_price'') = Some p"
  shows "validate_order_data (PDict d) =
     (case validate_number q F_quantity of
        Inl x \<Rightarrow> Inl x
      | Inr rq \<Rightarrow>
         (case validate_number p F_total_price of
            Inl x \<Rightarrow> Inl x
          | Inr rp \<Rightarrow>
              if snd (sanitize_string c F_customer_name) @ snd (sanitize_string i F_item_name)
                   @ snd rq @ snd rp \<noteq> []
              then Inr (None, snd (sanitize_string c F_customer_name)
                        @ snd (sanitize_string i F_item_name) @ snd rq @ snd rp)
              else Inr (Some \<lparr>v_customer_name = fst (sanitize_string c F_customer_name),
                             v_item_name = fst (sanitize_string i F_item_name),
                             v_quantity = fst rq, v_total_price = fst rp\<rparr>, [])))"
  using assms
  by (simp add: validate_order_data_def required_fields_def dict_get_def Let_def
      split: sum.splits)

lemma map_of_order_json:
  "map_of [(ascii ''customer_name'', c), (ascii ''item_name'', i), (ascii ''quantity'', q),
            (ascii ''total_price'', p)] (ascii ''customer_name'') = Some c"
  "map_of [(ascii ''customer_name'', c), (ascii ''item_name'', i), (ascii ''quantity'', q),
            (ascii ''total_price'', p)] (ascii ''item_name'') = Some i"
  "map_of [(ascii ''customer_name'', c), (ascii ''item_name'', i), (ascii ''quantity'', q),
            (ascii ''total_price'', p)] (ascii ''quantity'') = Some q"
  "map_of [(ascii ''customer_name'', c), (ascii ''item_name'', i), (ascii ''quantity'', q),
            (ascii ''total_price'', p)] (ascii ''total_price'') = Some p"
  by (simp_all add: ascii_def)

lemma re_match_class: "cls 10 \<Longrightarrow> re_match cls s \<longleftrightarrow> s \<noteq> [] \<and> list_all cls s"
proof -
  assume nl: "cls 10"
  have "list_all cls s" if "2 \<le> length s" "last s = 10" "list_all cls (butlast s)"
  proof -
    from that(1) have "s \<noteq> []" by auto
    then have s: "butlast s @ [last s] = s" by simp
    have "list_all cls (butlast s @ [last s])" using that nl by simp
    then show ?thesis by (simp only: s)
  qed
  then show ?thesis
    by (auto simp: re_match_def)
qed

lemma pattern_newline: "pattern f 10"
  by (cases f) (simp_all add: py_isspace_def)




lemma validate_number_quantity_ok:
  "py_int q = Inr n \<Longrightarrow> 1 \<le> n \<Longrightarrow> n \<le> 1000 \<Longrightarrow>
     validate_number q F_quantity = Inr (Some (NInt n), [])"
  by (simp add: validate_number_def)



lemma sanitize_Bob_bang:
  "sanitize_string (PStr (ascii ''Bob!'')) F_customer_name
     = (Some (ascii ''Bob!''), [str_error_msg F_customer_name])"
  by (simp add: sanitize_string_def strip_def re_match_def ascii_def alnum_def py_isspace_def)

lemma sanitize_Widget:
  "sanitize_string (PStr (ascii ''Widget'')) F_item_name = (Some (ascii ''Widget''), [])"
  by (simp add: sanitize_string_def strip_def re_match_def ascii_def alnum_def py_isspace_def)

lemma validate_number_examples:
  "validate_number (PInt 1) F_quantity = Inr (Some (NInt 1), [])"
  "validate_number (PInt 0) F_quantity = Inr (None, [num_error_msg F_quantity])"
  "validate_number (PFloat (Finite (999 / 100))) F_total_price
     = Inr (Some (NFloat (Finite (999 / 100))), [])"
  by (simp_all add: validate_number_def round_half_even_def del: num_error_msg.simps)

lemma py_int_raises: "py_int v = Inl x \<Longrightarrow> x = ValueError \<or> x = TypeError \<or> x = OverflowError"
  by (induction v rule: py_int.induct) (auto split: option.splits)

lemma py_float_raises:
  "py_float v = Inl x \<Longrightarrow> x = ValueError \<or> x = TypeError \<or> x = OverflowError"
  by (induction v rule: py_float.induct) (auto split: option.splits pyfloat.splits)

lemma validate_number_raises: "validate_number v f = Inl x \<Longrightarrow> x = OverflowError"
proof (cases f)
  case F_quantity
  assume a: "validate_number v f = Inl x"
  show ?thesis
  proof (cases "py_int v")
    case (Inl y)
    with a F_quantity py_int_raises [OF Inl] show ?thesis
      by (auto simp: validate_number_def split: if_splits)
  next
    case (Inr n)
    with a F_quantity show ?thesis by (simp add: validate_number_def split: if_splits)
  qed
next
  case F_total_price
  assume a: "validate_number v f = Inl x"
  show ?thesis
  proof (cases "py_float v")
    case (Inl y)
    with a F_total_price py_float_raises [OF Inl] show ?thesis
      by (auto simp: validate_number_def split: if_splits)
  next
    case (Inr n)
    with a F_total_price show ?thesis by (simp add: validate_number_def split: if_splits)
  qed
qed




lemma sanitize_Bob:
  "sanitize_string (PStr (ascii '' Bob '')) F_customer_name = (Some (ascii ''Bob''), [])"
  by (simp add: sanitize_string_def strip_def re_match_def ascii_def alnum_def py_isspace_def)

lemma validate_Bob_bang:
  "validate_order_data
     (order_json (PStr (ascii ''Bob!'')) (PStr (ascii ''Widget'')) (PInt 0)
        (PFloat (Finite (999 / 100)))) =
   Inr (None, [str_error_msg F_customer_name, num_error_msg F_quantity])"
  unfolding order_json_def
  by (simp only: validate_order_data_present [OF map_of_order_json] sanitize_Bob_bang
      sanitize_Widget validate_number_examples) simp

lemma validate_number_quantity_Some:
  assumes "validate_number q F_quantity = Inr (Some qv, es)"
  shows "\<exists>n. qv = NInt n \<and> 1 \<le> n \<and> n \<le> 1000"
proof (cases "py_int q")
  case (Inl x)
  with assms show ?thesis by (simp add: validate_number_def split: if_splits)
next
  case (Inr n)
  with assms show ?thesis by (auto simp: validate_number_def split: if_splits)
qed

lemma float_of_str_nan: "float_of_str (ascii ''nan'') = Some NaN"
  by (simp add: float_of_str_def ascii_def c_isspace_def split_sign_def to_lower_def
      ascii_digit_def)

lemma validate_number_nan:
  "p = PFloat NaN \<or> p = PStr (ascii ''nan'') \<Longrightarrow>
     validate_number p F_total_price = Inr (Some (NFloat NaN), [])"
  by (auto simp: validate_number_def float_of_str_nan)

lemma truthy_present: "map_of d k = Some v \<Longrightarrow> truthy (PDict d)"
  by (cases d) simp_all

lemma create_order_nan:
  assumes "validate_order_data data = Inr (Some v, [])" and "truthy data"
    and "v_customer_name v = Some c" and "v_item_name v = Some i"
    and "v_quantity v = Some (NInt n)" and "1 \<le> n" and "n \<le> 1000"
    and "v_total_price v = Some (NFloat NaN)"
  shows "create_order e now (Get_json_returns data) db =
     (\<lparr>outcome = Response 500 (Json_error (ascii ''Database error occurred'')),
       conn = (if connect_fails e then Is_None else Closed)\<rparr>, db)"
  using assms
  by (simp add: create_order_def create_order_try_def finally_close_if_conn_def
      create_order_except_def insert_validated_def insert_order_def)

lemma validate_number_float_quantity:
  "validate_number (PFloat (Finite s)) F_quantity =
     (if 1 \<le> s \<and> s < 1001 then Inr (Some (NInt \<lfloor>s\<rfloor>), [])
      else Inr (None, [num_error_msg F_quantity]))"
proof (cases "s < 0")
  case True
  then have "\<lceil>s\<rceil> \<le> 0" by (simp add: ceiling_le_iff)
  with True show ?thesis by (simp add: validate_number_def del: num_error_msg.simps)
next
  case False
  have "1 \<le> \<lfloor>s\<rfloor> \<longleftrightarrow> 1 \<le> s" by (simp add: le_floor_iff)
  moreover have "\<lfloor>s\<rfloor> \<le> 1000 \<longleftrightarrow> s < 1001" by (simp add: floor_le_iff)
  ultimately show ?thesis
    using False by (auto simp: validate_number_def simp del: num_error_msg.simps)
qed

text \<open>
  Claim C9, as the code has it. The claim says that for a quantity given as a float
  that is not a whole number, the other fields valid, the validator reports no quantity
  error. For 0.5 \<open>int(value)\<close> gives 0 and the validator reports
  \<open>Quantity must be between 1 and 1000\<close>.
\<close>

theorem validate_quantity_half_counterexample:
  "of_int \<lfloor>1 / 2 :: rat\<rfloor> \<noteq> (1 / 2 :: rat)
   \<and> py_int (PFloat (Finite (1 / 2))) = Inr 0
   \<and> validate_order_data
      (order_json (PStr (ascii '' Bob '')) (PStr (ascii ''Widget'')) (PFloat (Finite (1 / 2)))
         (PFloat (Finite (999 / 100)))) =
     Inr (None, [num_error_msg F_quantity])"
proof -
  have f: "\<lfloor>1 / 2 :: rat\<rfloor> = 0" by (simp add: floor_eq_iff)
  have q: "validate_number (PFloat (Finite (1 / 2))) F_quantity
      = Inr (None, [num_error_msg F_quantity])"
    by (simp add: validate_number_float_quantity del: num_error_msg.simps)
  have "validate_order_data
      (order_json (PStr (ascii '' Bob '')) (PStr (ascii ''Widget'')) (PFloat (Finite (1 / 2)))
         (PFloat (Finite (999 / 100)))) =
     Inr (None, [num_error_msg F_quantity])"
    unfolding order_json_def
    by (simp only: validate_order_data_present [OF map_of_order_json] sanitize_Bob
        sanitize_Widget validate_number_examples q) simp
  with f show ?thesis by simp
qed

text \<open>
  Claim C9, amended. A quantity given as a float that is not a whole number is never
  rejected as a wrong type: \<open>int(value)\<close> truncates it toward zero. When the truncated
  value lies from 1 to 1000, that is for a float from 1 up to but not 1001, and the other
  fields are valid, the validator reports no error and records the truncated value;
  3.7 is recorded as 3. For any other float the validator reports the range error of
  the quantity.
\<close>

theorem validate_quantity_float_truncates:
  assumes "map_of d (ascii ''customer_name'') = Some c"
    and "map_of d (ascii ''item_name'') = Some i"
    and "map_of d (ascii ''quantity'') = Some (PFloat (Finite r))"
    and "map_of d (ascii ''total_price'') = Some p"
    and "sanitize_string c F_customer_name = (Some cv, [])"
    and "sanitize_string i F_item_name = (Some iv, [])"
    and "validate_number p F_total_price = Inr (Some pv, [])"
    and "of_int \<lfloor>r\<rfloor> \<noteq> r" and "1 \<le> r" and "r < 1001"
  shows "py_int (PFloat (Finite r)) = Inr \<lfloor>r\<rfloor>
    \<and> py_int (PFloat (Finite (- r))) = Inr (- \<lfloor>r\<rfloor>)
    \<and> validate_order_data (PDict d) =
        Inr (Some \<lparr>v_customer_name = Some cv, v_item_name = Some iv,
                   v_quantity = Some (NInt \<lfloor>r\<rfloor>), v_total_price = Some pv\<rparr>, [])
    \<and> validate_number (PFloat (Finite s)) F_quantity =
        (if 1 \<le> s \<and> s < 1001 then Inr (Some (NInt \<lfloor>s\<rfloor>), [])
         else Inr (None, [num_error_msg F_quantity]))"
proof -
  have i: "py_int (PFloat (Finite r)) = Inr \<lfloor>r\<rfloor>"
    using assms(9) by simp
  have j: "py_int (PFloat (Finite (- r))) = Inr (- \<lfloor>r\<rfloor>)"
    using assms(9) by (simp add: ceiling_minus)
  have "1 \<le> \<lfloor>r\<rfloor>" using assms(9) by (simp add: le_floor_iff)
  moreover have "\<lfloor>r\<rfloor> \<le> 1000" using assms(10) by (simp add: floor_le_iff)
  ultimately have q: "validate_number (PFloat (Finite r)) F_quantity = Inr (Some (NInt \<lfloor>r\<rfloor>), [])"
    using i by (intro validate_number_quantity_ok)
  have v: "validate_order_data (PDict d) =
        Inr (Some \<lparr>v_customer_name = Some cv, v_item_name = Some iv,
                   v_quantity = Some (NInt \<lfloor>r\<rfloor>), v_total_price = Some pv\<rparr>, [])"
    by (simp only: validate_order_data_present [OF assms(1-4)] assms(5-7) q) simp
  from i j v validate_number_float_quantity [of s] show ?thesis
    by (simp only: simp_thms)
qed

theorem validate_quantity_float_truncates_witness:
  "of_int \<lfloor>37 / 10 :: rat\<rfloor> \<noteq> (37 / 10 :: rat)
   \<and> validate_order_data
      (order_json (PStr (ascii '' Bob '')) (PStr (ascii ''Widget'')) (PFloat (Finite (37 / 10)))
         (PFloat (Finite (999 / 100)))) =
     Inr (Some \<lparr>v_customer_name = Some (ascii ''Bob''), v_item_name = Some (ascii ''Widget''),
                v_quantity = Some (NInt 3),
                v_total_price = Some (NFloat (Finite (999 / 100)))\<rparr>, [])
   \<and> validate_number (PFloat (Finite (- (37 / 10)))) F_quantity
       = Inr (None, [num_error_msg F_quantity])"
proof -
  have f: "\<lfloor>37 / 10 :: rat\<rfloor> = 3" by (simp add: floor_eq_iff)
  have n: "of_int \<lfloor>37 / 10 :: rat\<rfloor> \<noteq> (37 / 10 :: rat)" "1 \<le> (37 / 10 :: rat)"
    "(37 / 10 :: rat) < 1001"
    unfolding f by simp_all
  from validate_quantity_float_truncates [OF map_of_order_json sanitize_Bob sanitize_Widget
      validate_number_examples(3) n, of "- (37 / 10)", unfolded f, folded order_json_def] n(1)
  show ?thesis by (simp del: num_error_msg.simps)
qed

subsection \<open>Creating an order\<close>

text \<open>
  Claim C8, as the code has it. The claim says that an order whose price is NaN is
  accepted and persisted. The validator accepts it, but the insert fails: \<open>sqlite3\<close>
  binds NaN as NULL and column \<open>total_price\<close> is \<open>NOT NULL\<close>, so the answer is 500 and
  the table is unchanged.
\<close>

theorem create_order_nan_counterexample:
  "create_order \<lparr>connect_fails = False\<rparr> 0
     (Get_json_returns (order_json (PStr (ascii '' Bob '')) (PStr (ascii ''Widget'')) (PInt 1)
        (PStr (ascii ''nan'')))) seeded_db =
   (\<lparr>outcome = Response 500 (Json_error (ascii ''Database error occurred'')), conn = Closed\<rparr>,
    seeded_db)"
proof -
  have v: "validate_order_data (order_json (PStr (ascii '' Bob '')) (PStr (ascii ''Widget''))
        (PInt 1) (PStr (ascii ''nan''))) =
      Inr (Some \<lparr>v_customer_name = Some (ascii ''Bob''), v_item_name = Some (ascii ''Widget''),
                v_quantity = Some (NInt 1), v_total_price = Some (NFloat NaN)\<rparr>, [])"
    unfolding order_json_def
    by (simp only: validate_order_data_present [OF map_of_order_json] sanitize_Bob
        sanitize_Widget validate_number_examples validate_number_nan [OF disjI2 [OF refl]]) simp
  have t: "truthy (order_json (PStr (ascii '' Bob '')) (PStr (ascii ''Widget''))
        (PInt 1) (PStr (ascii ''nan'')))"
    by (simp add: order_json_def)
  show ?thesis
    using create_order_nan [OF v t, of "ascii ''Bob''" "ascii ''Widget''" 1
        "\<lparr>connect_fails = False\<rparr>" 0 seeded_db]
    by simp
qed

text \<open>
  Claim C8, amended. For a price given as the string \<open>nan\<close> or as a float NaN, the other
  fields valid, both range comparisons are false, the validator reports no error and
  records NaN as the price; \<open>create_order\<close> then answers 500 with
  \<open>Database error occurred\<close> and persists nothing.
\<close>

theorem create_order_nan_rejected:
  assumes "map_of d (ascii ''customer_name'') = Some c"
    and "map_of d (ascii ''item_name'') = Some i"
    and "map_of d (ascii ''quantity'') = Some q"
    and "map_of d (ascii ''total_price'') = Some p"
    and "sanitize_string c F_customer_name = (Some cv, [])"
    and "sanitize_string i F_item_name = (Some iv, [])"
    and "validate_number q F_quantity = Inr (Some qv, [])"
    and "p = PFloat NaN \<or> p = PStr (ascii ''nan'')"
  shows "\<not> float_lt NaN (Finite (1 / 100)) \<and> \<not> float_lt (Finite 1000000) NaN
    \<and> validate_order_data (PDict d) =
        Inr (Some \<lparr>v_customer_name = Some cv, v_item_name = Some iv,
                   v_quantity = Some qv, v_total_price = Some (NFloat NaN)\<rparr>, [])
    \<and> create_order e now (Get_json_returns (PDict d)) db =
        (\<lparr>outcome = Response 500 (Json_error (ascii ''Database error occurred'')),
          conn = (if connect_fails e then Is_None else Closed)\<rparr>, db)"
proof -
  have v: "validate_order_data (PDict d) =
        Inr (Some \<lparr>v_customer_name = Some cv, v_item_name = Some iv,
                   v_quantity = Some qv, v_total_price = Some (NFloat NaN)\<rparr>, [])"
    by (simp only: validate_order_data_present [OF assms(1-4)] assms(5-7)
        validate_number_nan [OF assms(8)]) simp
  from validate_number_quantity_Some [OF assms(7)]
  obtain n where n: "qv = NInt n" "1 \<le> n" "n \<le> 1000" by blast
  have "create_order e now (Get_json_returns (PDict d)) db =
        (\<lparr>outcome = Response 500 (Json_error (ascii ''Database error occurred'')),
          conn = (if connect_fails e then Is_None else Closed)\<rparr>, db)"
    by (rule create_order_nan [OF v truthy_present [OF assms(1)], of cv iv n])
       (simp_all add: n)
  with v show ?thesis by simp
qed

theorem create_order_nan_rejected_witness:
  "validate_order_data (order_json (PStr (ascii '' Bob '')) (PStr (ascii ''Widget''))
        (PInt 1) (PFloat NaN)) =
      Inr (Some \<lparr>v_customer_name = Some (ascii ''Bob''), v_item_name = Some (ascii ''Widget''),
                v_quantity = Some (NInt 1), v_total_price = Some (NFloat NaN)\<rparr>, [])
   \<and> create_order \<lparr>connect_fails = False\<rparr> 0
     (Get_json_returns (order_json (PStr (ascii '' Bob '')) (PStr (ascii ''Widget'')) (PInt 1)
        (PFloat NaN))) seeded_db =
   (\<lparr>outcome = Response 500 (Json_error (ascii ''Database error occurred'')), conn = Closed\<rparr>,
    seeded_db)"
  using create_order_nan_rejected [OF map_of_order_json sanitize_Bob sanitize_Widget
      validate_number_examples(1) disjI1 [OF refl], of "\<lparr>connect_fails = False\<rparr>" 0 seeded_db,
      folded order_json_def]
  by simp

text \<open>The only exception that leaves the validator is \<open>OverflowError\<close>: of \<open>int\<close> for an
  infinite float, and of \<open>float\<close> for an integer beyond the floats.\<close>

lemma validate_order_data_raises:
  assumes "validate_order_data data = Inl x"
  shows "x = OverflowError"
proof (cases data)
  case (PDict d)
  with assms show ?thesis
    by (auto simp: validate_order_data_def Let_def split: if_splits sum.splits
        dest: validate_number_raises)
qed (use assms in \<open>simp_all add: validate_order_data_def\<close>)

lemma validate_infinite_quantity:
  "validate_order_data
     (order_json (PStr (ascii ''Bob!'')) (PStr (ascii ''Widget'')) (PFloat PosInf)
        (PFloat (Finite (999 / 100)))) = Inl OverflowError"
  unfolding order_json_def
  by (simp only: validate_order_data_present [OF map_of_order_json])
     (simp add: validate_number_def)

lemma keys_never_mixed:
  "\<not> (''error'' \<in> set (outcome_keys oc) \<and> ''errors'' \<in> set (outcome_keys oc))"
proof (cases oc)
  case (Response n b)
  then show ?thesis by (cases b) simp_all
next
  case (Raised x)
  then show ?thesis by simp
qed

text \<open>
  Claim C7, as the code has it. The claim says that a request whose body is missing
  gets status 400 with the key \<open>errors\<close>. When \<open>get_json\<close> returns \<open>None\<close>, or an empty
  object, the answer is 400 with the single key \<open>error\<close>.
\<close>

theorem create_order_no_data_counterexample:
  "fst (create_order \<lparr>connect_fails = False\<rparr> 0 (Get_json_returns PNone) seeded_db) =
     \<lparr>outcome = Response 400 (Json_error (ascii ''No provided data'')), conn = Is_None\<rparr>
   \<and> fst (create_order \<lparr>connect_fails = False\<rparr> 0 (Get_json_returns (PDict [])) seeded_db) =
     \<lparr>outcome = Response 400 (Json_error (ascii ''No provided data'')), conn = Is_None\<rparr>
   \<and> outcome_keys (Response 400 (Json_error (ascii ''No provided data''))) = [''error'']"
  by (simp add: create_order_def create_order_try_def finally_close_if_conn_def)

text \<open>
  Claim C7, amended. A body that fails validation gets status 400 with the key
  \<open>errors\<close> holding the validation messages. A body that is missing or empty (a false
  value) gets status 400 with the single key \<open>error\<close>; a body that is not JSON
  (\<open>get_json\<close> raises), and a body on which the validator itself raises, get status 500
  with the key \<open>error\<close>. No answer of the three handlers has both keys.
\<close>

theorem create_order_error_shape:
  "(truthy data \<and> validate_order_data data = Inr (v, errors) \<and> errors \<noteq> [] \<longrightarrow>
      create_order e now (Get_json_returns data) db =
        (\<lparr>outcome = Response 400 (Json_errors errors), conn = Is_None\<rparr>, db))
   \<and> (truthy data \<and> validate_order_data data = Inl x \<longrightarrow>
      create_order e now (Get_json_returns data) db =
        (\<lparr>outcome = Response 500 (Json_error (ascii ''Failed to create the order'')),
          conn = Is_None\<rparr>, db))
   \<and> (\<not> truthy data \<longrightarrow>
      create_order e now (Get_json_returns data) db =
        (\<lparr>outcome = Response 400 (Json_error (ascii ''No provided data'')), conn = Is_None\<rparr>, db))
   \<and> create_order e now Get_json_raises db =
        (\<lparr>outcome = Response 500 (Json_error (ascii ''Failed to create the order'')),
          conn = Is_None\<rparr>, db)
   \<and> \<not> (''error'' \<in> set (outcome_keys (outcome (fst (create_order e now req db))))
        \<and> ''errors'' \<in> set (outcome_keys (outcome (fst (create_order e now req db)))))
   \<and> \<not> (''error'' \<in> set (outcome_keys (outcome (get_order e db oid)))
        \<and> ''errors'' \<in> set (outcome_keys (outcome (get_order e db oid))))
   \<and> \<not> (''error'' \<in> set (outcome_keys (outcome (get_orders e db)))
        \<and> ''errors'' \<in> set (outcome_keys (outcome (get_orders e db))))"
  using keys_never_mixed validate_order_data_raises [of data x]
  by (auto simp: create_order_def create_order_try_def finally_close_if_conn_def
      create_order_except_def)

theorem create_order_error_shape_witness:
  "create_order \<lparr>connect_fails = False\<rparr> 0
     (Get_json_returns (order_json (PStr (ascii ''Bob!'')) (PStr (ascii ''Widget'')) (PInt 0)
        (PFloat (Finite (999 / 100))))) seeded_db =
     (\<lparr>outcome = Response 400 (Json_errors [str_error_msg F_customer_name,
                                              num_error_msg F_quantity]),
       conn = Is_None\<rparr>, seeded_db)
   \<and> create_order \<lparr>connect_fails = False\<rparr> 0
     (Get_json_returns (order_json (PStr (ascii ''Bob!'')) (PStr (ascii ''Widget''))
        (PFloat PosInf) (PFloat (Finite (999 / 100))))) seeded_db =
     (\<lparr>outcome = Response 500 (Json_error (ascii ''Failed to create the order'')),
       conn = Is_None\<rparr>, seeded_db)
   \<and> create_order \<lparr>connect_fails = False\<rparr> 0 (Get_json_returns PNone) seeded_db =
     (\<lparr>outcome = Response 400 (Json_error (ascii ''No provided data'')), conn = Is_None\<rparr>,
      seeded_db)"
proof -
  have t: "truthy (order_json c i q p)" for c i q p
    by (simp add: order_json_def)
  show ?thesis
    using t validate_Bob_bang validate_infinite_quantity
      create_order_error_shape [where data = "order_json (PStr (ascii ''Bob!''))
          (PStr (ascii ''Widget'')) (PInt 0) (PFloat (Finite (999 / 100)))"
        and v = None and errors = "[str_error_msg F_customer_name, num_error_msg F_quantity]"
        and e = "\<lparr>connect_fails = False\<rparr>" and now = 0 and db = seeded_db]
      create_order_error_shape [where data = "order_json (PStr (ascii ''Bob!''))
          (PStr (ascii ''Widget'')) (PFloat PosInf) (PFloat (Finite (999 / 100)))"
        and x = OverflowError
        and e = "\<lparr>connect_fails = False\<rparr>" and now = 0 and db = seeded_db]
      create_order_error_shape [where data = PNone
        and e = "\<lparr>connect_fails = False\<rparr>" and now = 0 and db = seeded_db]
    by simp
qed

subsection \<open>Creating, then looking up\<close>

lemma digits_value_snoc: "digits_value (xs @ [c]) = 10 * digits_value xs + (c - 48)"
  by (simp add: digits_value_def)

lemma str_of_nat_digits: "list_all ascii_digit (str_of_nat n) \<and> str_of_nat n \<noteq> []"
proof (induction n rule: str_of_nat.induct)
  case (1 n)
  show ?case
  proof (cases "n < 10")
    case True
    then show ?thesis by (subst (1 2) str_of_nat.simps) (simp add: ascii_digit_def)
  next
    case False
    have "n mod 10 < 10" by simp
    then have "ascii_digit (48 + n mod 10)" by (simp add: ascii_digit_def)
    with False "1.IH" show ?thesis by (subst (1 2) str_of_nat.simps) simp
  qed
qed

lemma digits_value_str_of_nat: "digits_value (str_of_nat n) = n"
proof (induction n rule: str_of_nat.induct)
  case (1 n)
  show ?case
  proof (cases "n < 10")
    case True
    then show ?thesis by (subst str_of_nat.simps) (simp add: digits_value_def)
  next
    case False
    with "1.IH" show ?thesis
      by (subst str_of_nat.simps) (simp add: digits_value_snoc)
  qed
qed

lemma id_equals_text_str_of_nat:
  "n < 2 ^ 63 \<Longrightarrow> id_equals_text m (str_of_nat n) \<longleftrightarrow> m = n"
  using str_of_nat_digits [of n]
  by (auto simp: id_equals_text_def digits_value_str_of_nat)

lemma sanitize_string_Some:
  assumes "sanitize_string x f = (vo, [])"
  shows "\<exists>s. vo = Some s \<and> s \<noteq> [] \<and> length s \<le> max_length f \<and> re_match (pattern f) s
           \<and> (\<exists>s0. x = PStr s0 \<and> s = strip s0)"
  using assms
  by (cases x) (auto simp: sanitize_string_def Let_def split: if_splits)

lemma validate_number_price_Some:
  assumes "validate_number p F_total_price = Inr (Some pv, es)"
  shows "\<exists>x y. pv = NFloat x \<and> x = py_round2 y \<and> \<not> float_lt x (Finite (1 / 100))
           \<and> \<not> float_lt (Finite 1000000) x"
proof (cases "py_float p")
  case (Inl e)
  with assms show ?thesis by (simp add: validate_number_def split: if_splits)
next
  case (Inr y)
  with assms show ?thesis by (auto simp: validate_number_def split: if_splits)
qed

lemma validate_number_no_errors:
  "validate_number p f = Inr (None, es) \<Longrightarrow> es \<noteq> []"
  by (cases f; cases "py_int p"; cases "py_float p")
     (auto simp: validate_number_def split: if_splits)

lemma validate_order_data_Some:
  assumes "validate_order_data data = Inr (Some v, es)"
  shows "es = [] \<and> truthy data
     \<and> (\<exists>d c i q p. data = PDict d
          \<and> map_of d (ascii ''customer_name'') = Some c
          \<and> map_of d (ascii ''item_name'') = Some i
          \<and> map_of d (ascii ''quantity'') = Some q
          \<and> map_of d (ascii ''total_price'') = Some p
          \<and> sanitize_string c F_customer_name = (v_customer_name v, [])
          \<and> sanitize_string i F_item_name = (v_item_name v, [])
          \<and> validate_number q F_quantity = Inr (v_quantity v, [])
          \<and> validate_number p F_total_price = Inr (v_total_price v, []))"
proof (cases data)
  case (PDict d)
  have m: "filter (\<lambda>field. map_of d field = None) required_fields = []"
    using assms PDict by (auto simp: validate_order_data_def Let_def split: if_splits)
  then obtain c i q p where f: "map_of d (ascii ''customer_name'') = Some c"
    "map_of d (ascii ''item_name'') = Some i" "map_of d (ascii ''quantity'') = Some q"
    "map_of d (ascii ''total_price'') = Some p"
    by (auto simp: required_fields_def split: if_splits)
  from f(1) have t: "truthy data" unfolding PDict by (cases d) simp_all
  from assms show ?thesis
    unfolding PDict validate_order_data_present [OF f]
    using f t PDict
    by (auto split: sum.splits if_splits simp: prod_eq_iff)
qed (use assms in \<open>simp_all add: validate_order_data_def\<close>)

lemma create_order_201:
  assumes "create_order e now req db = (r, db')" and "outcome r = Response 201 b"
  shows "\<exists>data v c i n x. req = Get_json_returns data
     \<and> validate_order_data data = Inr (Some v, [])
     \<and> v = \<lparr>v_customer_name = Some c, v_item_name = Some i, v_quantity = Some (NInt n),
             v_total_price = Some (NFloat x)\<rparr>
     \<and> has_table db \<and> seq db < 2 ^ 63 - 1 \<and> x \<noteq> NaN
     \<and> r = \<lparr>outcome = Response 201 (Json_created (ascii ''Order successfully created'')
                                       (Suc (seq db))), conn = Closed\<rparr>
     \<and> db' = db\<lparr>rows := rows db @
                  [\<lparr>order_id = Suc (seq db), customer_name = c, item_name = i,
                    quantity = NInt n, total_price = NFloat x, created_at = now\<rparr>],
                seq := Suc (seq db)\<rparr>"
proof (cases req)
  case Get_json_raises
  with assms show ?thesis
    by (auto simp: create_order_def create_order_try_def finally_close_if_conn_def
        create_order_except_def)
next
  case (Get_json_returns data)
  show ?thesis
  proof (cases "validate_order_data data")
    case (Inl x)
    with assms Get_json_returns show ?thesis
      by (auto simp: create_order_def create_order_try_def finally_close_if_conn_def
          create_order_except_def split: if_splits)
  next
    case (Inr ve)
    obtain vo es where ve: "ve = (vo, es)" by (cases ve)
    show ?thesis
    proof (cases vo)
      case None
      with assms Get_json_returns Inr ve show ?thesis
        by (auto simp: create_order_def create_order_try_def finally_close_if_conn_def
            create_order_except_def insert_validated_def split: if_splits)
    next
      case (Some v)
      from validate_order_data_Some [OF Inr [unfolded ve Some]]
      obtain d c i q p where s: "es = []"
        "sanitize_string c F_customer_name = (v_customer_name v, [])"
        "sanitize_string i F_item_name = (v_item_name v, [])"
        "validate_number q F_quantity = Inr (v_quantity v, [])"
        "validate_number p F_total_price = Inr (v_total_price v, [])"
        by blast
      from sanitize_string_Some [OF s(2)] obtain cv where cv: "v_customer_name v = Some cv"
        by blast
      from sanitize_string_Some [OF s(3)] obtain iv where iv: "v_item_name v = Some iv"
        by blast
      obtain qv where qv: "v_quantity v = Some qv"
      proof (cases "v_quantity v")
        case None
        with s(4) have "validate_number q F_quantity = Inr (None, [])" by simp
        from validate_number_no_errors [OF this] show ?thesis by simp
      qed blast
      obtain pv where pv: "v_total_price v = Some pv"
      proof (cases "v_total_price v")
        case None
        with s(5) have "validate_number p F_total_price = Inr (None, [])" by simp
        from validate_number_no_errors [OF this] show ?thesis by simp
      qed blast
      from validate_number_quantity_Some [OF s(4) [unfolded qv]]
      obtain n where n: "qv = NInt n" "1 \<le> n" "n \<le> 1000" by blast
      from validate_number_price_Some [OF s(5) [unfolded pv]]
      obtain x where x: "pv = NFloat x" by blast
      have v: "v = \<lparr>v_customer_name = Some cv, v_item_name = Some iv,
                    v_quantity = Some (NInt n), v_total_price = Some (NFloat x)\<rparr>"
        using cv iv qv pv n x by simp
      have bx: "x \<noteq> NaN \<Longrightarrow> bind_number (NFloat x) = Inr (Some (NFloat x))"
        by (cases x) simp_all
      from assms Get_json_returns Inr ve Some s(1) n bx show ?thesis
        unfolding v
        by (cases "x = NaN")
           (auto simp: create_order_def create_order_try_def finally_close_if_conn_def
            create_order_except_def insert_validated_def insert_order_def
            split: if_splits)
    qed
  qed
qed

lemma create_order_store:
  assumes "create_order e now req db = (r, db')"
  shows "db' = db \<or> (has_table db' \<and> seq db' = Suc (seq db)
           \<and> (\<forall>row\<in>set (rows db'). row \<in> set (rows db) \<or> order_id row = Suc (seq db)))"
  using assms
  by (auto simp: create_order_def create_order_try_def insert_validated_def insert_order_def
      split: get_json.splits if_splits sum.splits option.splits prod.splits)

lemma reachable_invariant:
  "reachable db \<Longrightarrow> has_table db \<and> (\<forall>r\<in>set (rows db). order_id r \<le> seq db)"
proof (induction rule: reachable.induct)
  case (init clock db)
  then show ?case
    by (auto simp: init_database_fresh sample_orders_def upt_rec)
next
  case (create db e now req r db')
  from create_order_store [OF create.hyps(2)] create.IH show ?case
    by (auto simp: le_Suc_eq)
qed

lemma find_snoc_new:
  "\<forall>r\<in>set rs. \<not> P r \<Longrightarrow> P x \<Longrightarrow> find P (rs @ [x]) = Some x"
  by (induction rs) simp_all

lemma create_order_valid:
  assumes "validate_order_data data =
      Inr (Some \<lparr>v_customer_name = Some c, v_item_name = Some i, v_quantity = Some (NInt n),
                 v_total_price = Some (NFloat (Finite x))\<rparr>, [])"
    and "truthy data" and "1 \<le> n" and "n \<le> 1000"
    and "\<not> connect_fails e" and "has_table db" and "seq db < 2 ^ 63 - 1"
  shows "create_order e now (Get_json_returns data) db =
     (\<lparr>outcome = Response 201 (Json_created (ascii ''Order successfully created'')
                                (Suc (seq db))), conn = Closed\<rparr>,
      db\<lparr>rows := rows db @
                  [\<lparr>order_id = Suc (seq db), customer_name = c, item_name = i,
                    quantity = NInt n, total_price = NFloat (Finite x), created_at = now\<rparr>],
         seq := Suc (seq db)\<rparr>)"
  using assms
  by (simp add: create_order_def create_order_try_def finally_close_if_conn_def
      insert_validated_def insert_order_def)

lemma seq_seeded_db: "seq seeded_db = 5"
  by (simp add: seeded_db_def init_database_fresh)

lemma validate_Bob:
  "validate_order_data
     (order_json (PStr (ascii '' Bob '')) (PStr (ascii ''Widget'')) (PInt 1)
        (PFloat (Finite (999 / 100)))) =
     Inr (Some \<lparr>v_customer_name = Some (ascii ''Bob''), v_item_name = Some (ascii ''Widget''),
                v_quantity = Some (NInt 1),
                v_total_price = Some (NFloat (Finite (999 / 100)))\<rparr>, [])"
  unfolding order_json_def
  by (simp only: validate_order_data_present [OF map_of_order_json] sanitize_Bob
      sanitize_Widget validate_number_examples) simp

lemma create_Bob:
  assumes "has_table db" and "seq db < 2 ^ 63 - 1"
  shows "create_order \<lparr>connect_fails = False\<rparr> now
     (Get_json_returns (order_json (PStr (ascii '' Bob '')) (PStr (ascii ''Widget'')) (PInt 1)
        (PFloat (Finite (999 / 100))))) db =
     (\<lparr>outcome = Response 201 (Json_created (ascii ''Order successfully created'')
                                (Suc (seq db))), conn = Closed\<rparr>,
      db\<lparr>rows := rows db @
                  [\<lparr>order_id = Suc (seq db), customer_name = ascii ''Bob'',
                    item_name = ascii ''Widget'', quantity = NInt 1,
                    total_price = NFloat (Finite (999 / 100)), created_at = now\<rparr>],
         seq := Suc (seq db)\<rparr>)"
  by (rule create_order_valid [OF validate_Bob _ _ _ _ assms]) (simp_all add: order_json_def)

text \<open>
  Claim C6. When \<open>create_order\<close> answers 201 with an id, the body had passed
  validation, and \<open>get_order\<close> with that id, written in decimal, answers 200 with the
  row whose \<open>customer_name\<close>, \<open>item_name\<close>, \<open>quantity\<close> and \<open>total_price\<close> are those of
  the validated record; the row has the new id and the time of the insert.
\<close>

theorem create_then_get_round_trip:
  assumes "reachable db" and "create_order e now req db = (r, db')"
    and "outcome r = Response 201 (Json_created m n)" and "\<not> connect_fails e'"
  shows "\<exists>data v row. req = Get_json_returns data
     \<and> validate_order_data data = Inr (Some v, [])
     \<and> get_order e' db' (str_of_nat n) =
         \<lparr>outcome = Response 200 (Json_order row), conn = Closed\<rparr>
     \<and> v_customer_name v = Some (customer_name row)
     \<and> v_item_name v = Some (item_name row)
     \<and> v_quantity v = Some (quantity row)
     \<and> v_total_price v = Some (total_price row)
     \<and> order_id row = n \<and> created_at row = now"
proof -
  from create_order_201 [OF assms(2,3)]
  obtain data v c i k x where f: "req = Get_json_returns data"
    "validate_order_data data = Inr (Some v, [])"
    "v = \<lparr>v_customer_name = Some c, v_item_name = Some i, v_quantity = Some (NInt k),
             v_total_price = Some (NFloat x)\<rparr>"
    "has_table db" "seq db < 2 ^ 63 - 1"
    "r = \<lparr>outcome = Response 201 (Json_created (ascii ''Order successfully created'')
                                       (Suc (seq db))), conn = Closed\<rparr>"
    "db' = db\<lparr>rows := rows db @
                  [\<lparr>order_id = Suc (seq db), customer_name = c, item_name = i,
                    quantity = NInt k, total_price = NFloat x, created_at = now\<rparr>],
                seq := Suc (seq db)\<rparr>"
    by blast
  define row where "row = \<lparr>order_id = Suc (seq db), customer_name = c, item_name = i,
                    quantity = NInt k, total_price = NFloat x, created_at = now\<rparr>"
  from f(6) assms(3) have n: "n = Suc (seq db)" by simp
  from f(5) have lt: "n < 2 ^ 63" unfolding n by simp
  have old: "\<forall>r\<in>set (rows db). \<not> id_equals_text (order_id r) (str_of_nat n)"
  proof
    fix r assume "r \<in> set (rows db)"
    with reachable_invariant [OF assms(1)] have "order_id r \<le> seq db" by blast
    then have "order_id r \<noteq> n" unfolding n by simp
    then show "\<not> id_equals_text (order_id r) (str_of_nat n)"
      by (simp add: id_equals_text_str_of_nat [OF lt])
  qed
  have new: "id_equals_text (order_id row) (str_of_nat n)"
    unfolding id_equals_text_str_of_nat [OF lt] by (simp add: row_def n)
  have found: "find (\<lambda>r. id_equals_text (order_id r) (str_of_nat n)) (rows db') = Some row"
    unfolding f(7) using find_snoc_new [OF old new] by (simp add: row_def)
  have dig: "isdigit (str_of_nat n)"
    using str_of_nat_digits [of n] by (simp add: ascii_digit_isdigit)
  have t: "has_table db'" unfolding f(7) using f(4) by simp
  have "get_order e' db' (str_of_nat n) =
         \<lparr>outcome = Response 200 (Json_order row), conn = Closed\<rparr>"
    using assms(4) dig t found
    by (simp add: get_order_def get_order_try_def finally_close_def)
  with f(1,2) show ?thesis
    unfolding f(3)
    by (intro exI [of _ data] exI [of _ "\<lparr>v_customer_name = Some c, v_item_name = Some i,
          v_quantity = Some (NInt k), v_total_price = Some (NFloat x)\<rparr>"] exI [of _ row])
       (simp add: row_def n)
qed

theorem create_then_get_round_trip_witness:
  "get_order \<lparr>connect_fails = False\<rparr>
     (snd (create_order \<lparr>connect_fails = False\<rparr> 7
        (Get_json_returns (order_json (PStr (ascii '' Bob '')) (PStr (ascii ''Widget'')) (PInt 1)
           (PFloat (Finite (999 / 100))))) seeded_db))
     (ascii ''6'') =
   \<lparr>outcome = Response 200 (Json_order
       \<lparr>order_id = 6, customer_name = ascii ''Bob'', item_name = ascii ''Widget'',
        quantity = NInt 1, total_price = NFloat (Finite (999 / 100)), created_at = 7\<rparr>),
    conn = Closed\<rparr>"
proof -
  have s: "seq seeded_db < 2 ^ 63 - 1" by (simp add: seq_seeded_db)
  note c = create_Bob [OF has_table_seeded_db s, of 7, unfolded seq_seeded_db]
  have six: "str_of_nat 6 = ascii ''6''"
    by (simp add: str_of_nat.simps [of 6] ascii_def)
  from create_then_get_round_trip [OF reachable_seeded_db c, of _ 6 "\<lparr>connect_fails = False\<rparr>"]
  obtain data v row where w:
    "Get_json_returns (order_json (PStr (ascii '' Bob '')) (PStr (ascii ''Widget'')) (PInt 1)
           (PFloat (Finite (999 / 100)))) = Get_json_returns data"
    "validate_order_data data = Inr (Some v, [])"
    "get_order \<lparr>connect_fails = False\<rparr>
       (seeded_db\<lparr>rows := rows seeded_db @
                  [\<lparr>order_id = Suc 5, customer_name = ascii ''Bob'',
                    item_name = ascii ''Widget'', quantity = NInt 1,
                    total_price = NFloat (Finite (999 / 100)), created_at = 7\<rparr>],
         seq := Suc 5\<rparr>) (str_of_nat 6) =
         \<lparr>outcome = Response 200 (Json_order row), conn = Closed\<rparr>"
    "v_customer_name v = Some (customer_name row)"
    "v_item_name v = Some (item_name row)"
    "v_quantity v = Some (quantity row)"
    "v_total_price v = Some (total_price row)"
    "order_id row = 6" "created_at row = 7"
    by auto
  from w(1) have "data = order_json (PStr (ascii '' Bob '')) (PStr (ascii ''Widget'')) (PInt 1)
           (PFloat (Finite (999 / 100)))" by simp
  with w(2) validate_Bob have v: "v = \<lparr>v_customer_name = Some (ascii ''Bob''),
      v_item_name = Some (ascii ''Widget''), v_quantity = Some (NInt 1),
      v_total_price = Some (NFloat (Finite (999 / 100)))\<rparr>" by simp
  have "row = \<lparr>order_id = 6, customer_name = ascii ''Bob'', item_name = ascii ''Widget'',
        quantity = NInt 1, total_price = NFloat (Finite (999 / 100)), created_at = 7\<rparr>"
    using w(4-9) unfolding v by (cases row) simp
  with w(3) show ?thesis
    unfolding c six by simp
qed

subsection \<open>Listing the orders\<close>

lemma rows_three_creates:
  "rows (three_creates t1 t2 t3) =
     rows seeded_db @
       [\<lparr>order_id = 6, customer_name = ascii ''Bob'', item_name = ascii ''Widget'',
         quantity = NInt 1, total_price = NFloat (Finite (999 / 100)), created_at = t1\<rparr>,
        \<lparr>order_id = 7, customer_name = ascii ''Bob'', item_name = ascii ''Widget'',
         quantity = NInt 1, total_price = NFloat (Finite (999 / 100)), created_at = t2\<rparr>,
        \<lparr>order_id = 8, customer_name = ascii ''Bob'', item_name = ascii ''Widget'',
         quantity = NInt 1, total_price = NFloat (Finite (999 / 100)), created_at = t3\<rparr>]"
  "has_table (three_creates t1 t2 t3)"
  by (simp_all add: three_creates_def bob_order_def create_Bob has_table_seeded_db seq_seeded_db)

lemma created_at_seeded_db: "map created_at (rows seeded_db) = [0, 0, 0, 0, 0]"
  by (simp add: seeded_db_def init_database_fresh sample_orders_def upt_rec)

lemma get_orders_ok:
  "\<not> connect_fails e \<Longrightarrow> has_table db \<Longrightarrow>
     get_orders e db =
       \<lparr>outcome = Response 200 (Json_orders (order_by_created_at_desc (rows db))),
        conn = Closed\<rparr>"
  by (simp add: get_orders_def get_orders_try_def finally_close_def)

lemma order_by_sorted:
  "sorted_wrt (\<lambda>a b. created_at b \<le> created_at a) (order_by_created_at_desc rs)"
proof -
  have "sorted (map (\<lambda>r. - int (created_at r)) (order_by_created_at_desc rs))"
    unfolding order_by_created_at_desc_def by (rule sorted_sort_key)
  then show ?thesis by (simp add: sorted_map)
qed

lemma order_by_stable:
  "filter (\<lambda>r. created_at r = t) (order_by_created_at_desc rs) = filter (\<lambda>r. created_at r = t) rs"
  using sort_key_stable [of "\<lambda>r. - int (created_at r)" "- int t" rs]
  by (simp add: order_by_created_at_desc_def)

lemma insort_after:
  "\<forall>y\<in>set ys. created_at x < created_at y \<Longrightarrow>
     insort_key (\<lambda>r. - int (created_at r)) x (ys @ zs)
       = ys @ insort_key (\<lambda>r. - int (created_at r)) x zs"
  by (induction ys) auto

lemma order_by_newer:
  assumes "\<forall>r\<in>set rs. \<forall>y\<in>set ys. created_at r < created_at y"
  shows "foldr (insort_key (\<lambda>r. - int (created_at r))) rs (ys @ zs)
           = ys @ foldr (insort_key (\<lambda>r. - int (created_at r))) rs zs"
  using assms by (induction rs) (simp_all add: insort_after)

lemma order_by_three_newer:
  assumes "\<forall>r\<in>set rs. created_at r < created_at a" and "created_at a < created_at b"
    and "created_at b < created_at c"
  shows "order_by_created_at_desc (rs @ [a, b, c]) = c # b # a # order_by_created_at_desc rs"
proof -
  have abc: "foldr (insort_key (\<lambda>r. - int (created_at r))) [a, b, c] [] = [c, b, a]"
    using assms(2,3) by simp
  have "\<forall>r\<in>set rs. \<forall>y\<in>set [c, b, a]. created_at r < created_at y"
    using assms by auto
  from order_by_newer [OF this, of "[]"] abc show ?thesis
    by (simp add: order_by_created_at_desc_def sort_key_def)
qed

lemma filter_distinct_key:
  "distinct (map h xs) \<Longrightarrow> k \<in> set xs \<Longrightarrow> filter (\<lambda>x. h k = h x) xs = [k]"
proof (induction xs)
  case Nil
  then show ?case by simp
next
  case (Cons x xs)
  show ?case
  proof (cases "k = x")
    case True
    with Cons.prems have "\<forall>y\<in>set xs. h x \<noteq> h y" by auto
    then have "filter (\<lambda>y. h x = h y) xs = []" by (simp add: filter_empty_conv)
    with True show ?thesis by simp
  next
    case False
    with Cons.prems have kx: "k \<in> set xs" by simp
    then have "h k \<in> h ` set xs" by (rule imageI)
    moreover from Cons.prems have "h x \<notin> h ` set xs" by simp
    ultimately have "h k \<noteq> h x" by metis
    with Cons kx show ?thesis by simp
  qed
qed

lemma sorted_fst_of_pairs:
  "sorted (map (\<lambda>r. (created_at r, order_id r)) xs) \<Longrightarrow> sorted (map created_at xs)"
  by (induction xs) (auto simp: less_eq_prod_def)

lemma order_by_distinct:
  assumes "distinct (map created_at rs)"
  shows "order_by_created_at_desc rs = listAll_spec rs"
  unfolding order_by_created_at_desc_def
proof (rule properties_for_sort_key)
  show "mset (listAll_spec rs) = mset rs"
    by (simp add: listAll_spec_def)
next
  fix k assume "k \<in> set (listAll_spec rs)"
  then have k: "k \<in> set rs" by (simp add: listAll_spec_def)
  have "mset (map created_at (listAll_spec rs)) = mset (map created_at rs)"
    by (simp add: listAll_spec_def)
  with assms have d: "distinct (map created_at (listAll_spec rs))"
    by (metis mset_eq_imp_distinct_iff)
  have k': "k \<in> set (listAll_spec rs)" using k by (simp add: listAll_spec_def)
  have "filter (\<lambda>x. created_at k = created_at x) (listAll_spec rs) = [k]"
    by (rule filter_distinct_key [OF d k'])
  moreover have "filter (\<lambda>x. created_at k = created_at x) rs = [k]"
    by (rule filter_distinct_key [OF assms k])
  ultimately show "filter (\<lambda>x. - int (created_at k) = - int (created_at x)) (listAll_spec rs)
      = filter (\<lambda>x. - int (created_at k) = - int (created_at x)) rs"
    by simp
next
  have "sorted (map created_at (sort_key (\<lambda>r. (created_at r, order_id r)) rs))"
    by (rule sorted_fst_of_pairs) (rule sorted_sort_key)
  then have "sorted (rev (map (\<lambda>r. - int (created_at r))
      (sort_key (\<lambda>r. (created_at r, order_id r)) rs)))"
    by (simp add: sorted_wrt_rev sorted_map sorted_wrt_map)
  then show "sorted (map (\<lambda>r. - int (created_at r)) (listAll_spec rs))"
    by (simp add: listAll_spec_def rev_map)
qed

lemma order_by_same_time:
  assumes "\<forall>r\<in>set rs. created_at r = t"
  shows "order_by_created_at_desc rs = rs"
proof -
  have "set (order_by_created_at_desc rs) = set rs"
    by (simp add: order_by_created_at_desc_def)
  with assms have "\<forall>r\<in>set (order_by_created_at_desc rs). created_at r = t" by simp
  then have "filter (\<lambda>r. created_at r = t) (order_by_created_at_desc rs)
      = order_by_created_at_desc rs" by (simp add: filter_id_conv)
  moreover from assms have "filter (\<lambda>r. created_at r = t) rs = rs"
    by (simp add: filter_id_conv)
  ultimately show ?thesis using order_by_stable [of t rs] by simp
qed

lemma order_by_append_newer:
  assumes "\<forall>r\<in>set rs. \<forall>y\<in>set ns. created_at r < created_at y"
  shows "order_by_created_at_desc (rs @ ns)
           = order_by_created_at_desc ns @ order_by_created_at_desc rs"
proof -
  have "\<forall>r\<in>set rs. \<forall>y\<in>set (order_by_created_at_desc ns). created_at r < created_at y"
    using assms by (simp add: order_by_created_at_desc_def)
  from order_by_newer [OF this, of "[]"] show ?thesis
    by (simp add: order_by_created_at_desc_def sort_key_def)
qed

lemma seeded_times: "\<forall>r\<in>set (rows seeded_db). created_at r = 0"
proof
  fix r assume "r \<in> set (rows seeded_db)"
  then have "created_at r \<in> set (map created_at (rows seeded_db))" by simp
  then show "created_at r = 0" unfolding created_at_seeded_db by simp
qed

text \<open>
  Claim C2, as the code has it. The claim says that rows of equal \<open>created_at\<close> are
  listed by \<open>id\<close> descending, so that three orders created one after the other come in
  reverse order of creation. The query is \<open>ORDER BY created_at DESC\<close> and nothing else:
  three orders created within one second are listed in the order of their creation.
\<close>

theorem get_orders_ties_counterexample:
  "get_orders \<lparr>connect_fails = False\<rparr> (three_creates 1 1 1) =
     \<lparr>outcome = Response 200
        (Json_orders (order_by_created_at_desc (rows (three_creates 1 1 1)))),
      conn = Closed\<rparr>
   \<and> map order_id (order_by_created_at_desc (rows (three_creates 1 1 1)))
       = [6, 7, 8, 1, 2, 3, 4, 5]
   \<and> map order_id (listAll_spec (rows (three_creates 1 1 1))) = [8, 7, 6, 5, 4, 3, 2, 1]"
proof -
  have g: "get_orders \<lparr>connect_fails = False\<rparr> (three_creates 1 1 1) =
     \<lparr>outcome = Response 200
        (Json_orders (order_by_created_at_desc (rows (three_creates 1 1 1)))),
      conn = Closed\<rparr>"
    by (rule get_orders_ok) (simp_all add: rows_three_creates)
  have a: "map order_id (order_by_created_at_desc (rows (three_creates 1 1 1)))
       = [6, 7, 8, 1, 2, 3, 4, 5]"
    unfolding rows_three_creates
    by (subst order_by_append_newer)
       (simp_all add: seeded_times order_by_same_time [of _ 0] order_by_same_time [of _ 1]
         rows_seeded_db)
  have b: "map order_id (listAll_spec (rows (three_creates 1 1 1))) = [8, 7, 6, 5, 4, 3, 2, 1]"
    unfolding rows_three_creates
    by (simp add: listAll_spec_def seeded_db_def init_database_fresh sample_orders_def upt_rec)
  from g a b show ?thesis by simp
qed

text \<open>
  Claim C2, amended. \<open>get_orders\<close> returns the stored orders, each once, sorted by
  \<open>created_at\<close> descending; rows of equal \<open>created_at\<close> keep the order of the table, which
  is by ascending \<open>id\<close>. When no two rows have the same \<open>created_at\<close> this is the
  order of the specification; three orders created at strictly increasing times, later
  than every other row, are listed first, in reverse order of creation.
\<close>

theorem get_orders_order:
  "(\<not> connect_fails e \<and> has_table db \<longrightarrow>
      get_orders e db =
        \<lparr>outcome = Response 200 (Json_orders (order_by_created_at_desc (rows db))),
         conn = Closed\<rparr>)
   \<and> mset (order_by_created_at_desc rs) = mset rs
   \<and> sorted_wrt (\<lambda>a b. created_at b \<le> created_at a) (order_by_created_at_desc rs)
   \<and> filter (\<lambda>r. created_at r = t) (order_by_created_at_desc rs)
       = filter (\<lambda>r. created_at r = t) rs
   \<and> (distinct (map created_at rs) \<longrightarrow> order_by_created_at_desc rs = listAll_spec rs)
   \<and> ((\<forall>r\<in>set rs'. created_at r < created_at a) \<and> created_at a < created_at b
        \<and> created_at b < created_at c \<longrightarrow>
      order_by_created_at_desc (rs' @ [a, b, c]) = c # b # a # order_by_created_at_desc rs')"
  by (simp add: get_orders_ok order_by_sorted order_by_stable order_by_distinct
      order_by_three_newer)
     (simp add: order_by_created_at_desc_def)

theorem get_orders_order_witness:
  "get_orders \<lparr>connect_fails = False\<rparr> (three_creates 1 2 3) =
     \<lparr>outcome = Response 200
        (Json_orders (order_by_created_at_desc (rows (three_creates 1 2 3)))),
      conn = Closed\<rparr>
   \<and> map order_id (order_by_created_at_desc (rows (three_creates 1 2 3)))
       = [8, 7, 6, 1, 2, 3, 4, 5]
   \<and> order_by_created_at_desc (drop 5 (rows (three_creates 1 2 3)))
       = listAll_spec (drop 5 (rows (three_creates 1 2 3)))"
proof -
  let ?a = "\<lparr>order_id = 6, customer_name = ascii ''Bob'', item_name = ascii ''Widget'',
         quantity = NInt 1, total_price = NFloat (Finite (999 / 100)), created_at = 1\<rparr>"
  let ?b = "\<lparr>order_id = 7, customer_name = ascii ''Bob'', item_name = ascii ''Widget'',
         quantity = NInt 1, total_price = NFloat (Finite (999 / 100)), created_at = 2\<rparr>"
  let ?c = "\<lparr>order_id = 8, customer_name = ascii ''Bob'', item_name = ascii ''Widget'',
         quantity = NInt 1, total_price = NFloat (Finite (999 / 100)), created_at = 3\<rparr>"
  have len: "length (rows seeded_db) = 5"
    by (simp add: seeded_db_def init_database_fresh sample_orders_def)
  note t1 = get_orders_order [of "\<lparr>connect_fails = False\<rparr>" "three_creates 1 2 3"
      "[?a, ?b, ?c]" 0 "rows seeded_db" ?a ?b ?c]
  have o: "\<forall>r\<in>set (rows seeded_db). created_at r < created_at ?a"
    using seeded_times by simp
  from t1 o have "order_by_created_at_desc (rows seeded_db @ [?a, ?b, ?c])
      = ?c # ?b # ?a # order_by_created_at_desc (rows seeded_db)" by simp
  then have m: "map order_id (order_by_created_at_desc (rows (three_creates 1 2 3)))
       = [8, 7, 6, 1, 2, 3, 4, 5]"
    unfolding rows_three_creates
    by (simp add: order_by_same_time [OF seeded_times] rows_seeded_db)
  from t1 have d: "order_by_created_at_desc [?a, ?b, ?c] = listAll_spec [?a, ?b, ?c]" by simp
  from t1 have g: "get_orders \<lparr>connect_fails = False\<rparr> (three_creates 1 2 3) =
     \<lparr>outcome = Response 200
        (Json_orders (order_by_created_at_desc (rows (three_creates 1 2 3)))),
      conn = Closed\<rparr>" by (simp add: rows_three_creates)
  from g m d len show ?thesis
    by (simp add: rows_three_creates)
qed

subsection \<open>The rows of the table\<close>

lemma dropWhile_id: "xs = [] \<or> \<not> P (hd xs) \<Longrightarrow> dropWhile P xs = xs"
  by (cases xs) auto

lemma strip_strip: "strip (strip s) = strip s"
proof -
  define t where "t = dropWhile py_isspace s"
  define u where "u = dropWhile py_isspace (rev t)"
  have s: "strip s = rev u" by (simp add: strip_def t_def u_def)
  have u: "u = [] \<or> \<not> py_isspace (hd u)"
    unfolding u_def using hd_dropWhile [of py_isspace "rev t"] by blast
  have t: "t = [] \<or> \<not> py_isspace (hd t)"
    unfolding t_def using hd_dropWhile [of py_isspace s] by blast
  have "u = drop (length (takeWhile py_isspace (rev t))) (rev t)"
    unfolding u_def by (rule dropWhile_eq_drop)
  then have "rev u = take (length t - length (takeWhile py_isspace (rev t))) t"
    by (simp add: rev_drop)
  then obtain m where m: "rev u = take m t" by blast
  have "rev u = [] \<or> \<not> py_isspace (hd (rev u))"
  proof (cases "rev u = []")
    case False
    with m have "0 < m" "t \<noteq> []" by auto
    with m have "hd (rev u) = hd t" by (simp add: hd_take)
    with t \<open>t \<noteq> []\<close> show ?thesis by simp
  qed simp
  then have "dropWhile py_isspace (rev u) = rev u" by (rule dropWhile_id)
  then have "strip (rev u) = rev (dropWhile py_isspace u)" by (simp add: strip_def)
  also have "\<dots> = rev u" using dropWhile_id [of u py_isspace] u by simp
  finally show ?thesis unfolding s .
qed

lemma sanitize_string_again:
  assumes "sanitize_string x f = (Some s, [])"
  shows "sanitize_string (PStr s) f = (Some s, [])"
proof -
  from sanitize_string_Some [OF assms]
  obtain s0 where a: "s \<noteq> []" "length s \<le> max_length f" "re_match (pattern f) s"
    "s = strip s0" by auto
  have "strip s = s" unfolding a(4) by (rule strip_strip)
  with a(1-3) show ?thesis by (simp add: sanitize_string_def)
qed

lemma round_half_even_of_int: "round_half_even (of_int k) = k"
  by (simp add: round_half_even_def)

lemma validate_number_price_again:
  assumes "validate_number p F_total_price = Inr (Some (NFloat x), [])" and "x \<noteq> NaN"
  shows "validate_number (PFloat x) F_total_price = Inr (Some (NFloat x), [])
    \<and> (\<exists>k. x = Finite (of_int k / 100) \<and> 1 \<le> k \<and> k \<le> 100000000)"
proof -
  from validate_number_price_Some [OF assms(1)]
  obtain y where y: "x = py_round2 y" "\<not> float_lt x (Finite (1 / 100))"
    "\<not> float_lt (Finite 1000000) x" by auto
  show ?thesis
  proof (cases y)
    case (Finite r)
    define k where "k = round_half_even (r * 100)"
    have x: "x = Finite (of_int k / 100)" using y(1) Finite by (simp add: k_def)
    from y(2) have "\<not> (of_int k :: rat) < of_int 1" unfolding x by simp
    then have lo: "1 \<le> k" by (simp only: of_int_less_iff not_less)
    from y(3) have "\<not> (of_int 100000000 :: rat) < of_int k" unfolding x by simp
    then have hi: "k \<le> 100000000" by (simp only: of_int_less_iff not_less)
    have "py_round2 x = x" unfolding x by (simp add: round_half_even_of_int)
    with y(2,3) lo hi x show ?thesis by (auto simp: validate_number_def)
  next
    case PosInf
    with y show ?thesis by simp
  next
    case NegInf
    with y show ?thesis by simp
  next
    case NaN
    with y assms(2) show ?thesis by simp
  qed
qed

lemma create_order_row_passes:
  assumes "create_order e now req db = (r, db')"
  shows "db' = db \<or> (\<exists>row. rows db' = rows db @ [row] \<and> passes_field_checks row)"
proof (cases "\<exists>b. outcome r = Response 201 b")
  case True
  then obtain b where b: "outcome r = Response 201 b" by blast
  from create_order_201 [OF assms b]
  obtain data v c i n x where f: "validate_order_data data = Inr (Some v, [])"
    "v = \<lparr>v_customer_name = Some c, v_item_name = Some i, v_quantity = Some (NInt n),
             v_total_price = Some (NFloat x)\<rparr>" "x \<noteq> NaN"
    "db' = db\<lparr>rows := rows db @
                  [\<lparr>order_id = Suc (seq db), customer_name = c, item_name = i,
                    quantity = NInt n, total_price = NFloat x, created_at = now\<rparr>],
                seq := Suc (seq db)\<rparr>"
    by blast
  from validate_order_data_Some [OF f(1)] obtain c0 i0 q0 p0 where
    s: "sanitize_string c0 F_customer_name = (Some c, [])"
       "sanitize_string i0 F_item_name = (Some i, [])"
       "validate_number q0 F_quantity = Inr (Some (NInt n), [])"
       "validate_number p0 F_total_price = Inr (Some (NFloat x), [])"
    unfolding f(2) by auto
  from validate_number_quantity_Some [OF s(3)] have n: "1 \<le> n" "n \<le> 1000" by auto
  have "passes_field_checks \<lparr>order_id = Suc (seq db), customer_name = c, item_name = i,
                    quantity = NInt n, total_price = NFloat x, created_at = now\<rparr>"
    using sanitize_string_again [OF s(1)] sanitize_string_again [OF s(2)]
      validate_number_quantity_ok [of "PInt n" n] n
      validate_number_price_again [OF s(4) f(3)]
    by (simp add: passes_field_checks_def)
  with f(4) show ?thesis by auto
next
  case False
  with assms show ?thesis
    by (auto simp: create_order_def create_order_try_def finally_close_if_conn_def
      split: get_json.splits if_splits sum.splits prod.splits conn_state.splits)
qed

lemmas check_eval = passes_field_checks_def sanitize_string_def strip_def re_match_def
  ascii_def alnum_def py_isspace_def validate_number_def round_half_even_def

lemma sample_rows_pass:
  assumes "init_database clock fresh_db = Inr db"
  shows "\<forall>r\<in>set (rows db). order_id r \<noteq> 5 \<longrightarrow> passes_field_checks r"
proof -
  from assms have "rows db =
      map (\<lambda>(k, c, i, q, p). \<lparr>order_id = Suc k, customer_name = c, item_name = i,
                     quantity = q, total_price = p, created_at = clock k\<rparr>)
                   (zip [0..<5] sample_orders)"
    by (auto simp: init_database_fresh)
  then show ?thesis
    by (simp add: sample_orders_def upt_rec) (simp add: check_eval)
qed

text \<open>Every row of a reachable database passes the field checks, except the sample row
  with id 5.\<close>

lemma reachable_rows_pass:
  "reachable db \<Longrightarrow> \<forall>r\<in>set (rows db). order_id r \<noteq> 5 \<longrightarrow> passes_field_checks r"
proof (induction rule: reachable.induct)
  case (init clock db)
  then show ?case by (rule sample_rows_pass)
next
  case (create db e now req r db')
  from create_order_row_passes [OF create.hyps(2)] create.IH show ?case by auto
qed

lemma passes_field_checks_constraints:
  assumes "passes_field_checks r" and "total_price r \<noteq> NFloat NaN"
  shows "data_model_constraints r"
proof -
  from assms(1) have c: "sanitize_string (PStr (customer_name r)) F_customer_name
      = (Some (customer_name r), [])"
    and i: "sanitize_string (PStr (item_name r)) F_item_name = (Some (item_name r), [])"
    and q: "validate_number (pyval_of_num (quantity r)) F_quantity = Inr (Some (quantity r), [])"
    and p: "validate_number (pyval_of_num (total_price r)) F_total_price
      = Inr (Some (total_price r), [])"
    by (simp_all add: passes_field_checks_def)
  from sanitize_string_Some [OF c]
  have c': "customer_name r \<noteq> []" "length (customer_name r) \<le> 100"
    "list_all (pattern F_customer_name) (customer_name r)"
    by (auto simp: re_match_class pattern_newline)
  from sanitize_string_Some [OF i]
  have i': "item_name r \<noteq> []" "length (item_name r) \<le> 200"
    "list_all (pattern F_item_name) (item_name r)"
    by (auto simp: re_match_class pattern_newline)
  from validate_number_quantity_Some [OF q]
  obtain n where n: "quantity r = NInt n" "1 \<le> n" "n \<le> 1000" by blast
  from validate_number_price_Some [OF p]
  obtain x where x: "total_price r = NFloat x" by blast
  with assms(2) have "x \<noteq> NaN" by simp
  from validate_number_price_again [OF p [unfolded x] this]
  obtain k where k: "x = Finite (of_int k / 100)" "1 \<le> k" "k \<le> 100000000" by blast
  have "(1 :: rat) / 100 \<le> of_int k / 100" using k(2) by simp
  moreover have "(of_int k :: rat) \<le> of_int 100000000" using k(3) by (simp only: of_int_le_iff)
  then have "(of_int k :: rat) / 100 \<le> 1000000" by simp
  ultimately show ?thesis
    using c' i' n x k(1) by (simp add: data_model_constraints_def Suc_le_eq)
qed

lemma reachable_no_nan:
  "reachable db \<Longrightarrow> \<forall>r\<in>set (rows db). total_price r \<noteq> NFloat NaN"
proof (induction rule: reachable.induct)
  case (init clock db)
  then show ?case by (auto simp: init_database_fresh sample_orders_def upt_rec)
next
  case (create db e now req r db')
  show ?case
  proof (cases "\<exists>b. outcome r = Response 201 b")
    case True
    then obtain b where "outcome r = Response 201 b" by blast
    from create_order_201 [OF create.hyps(2) this] create.IH show ?thesis by auto
  next
    case False
    with create.hyps(2) have "db' = db"
      by (auto simp: create_order_def create_order_try_def finally_close_if_conn_def
        split: get_json.splits if_splits sum.splits prod.splits conn_state.splits)
    with create.IH show ?thesis by simp
  qed
qed

text \<open>Every row of a reachable database but the sample row with id 5 passes the field
  checks and satisfies the constraints of the data model.\<close>

lemma reachable_rows_constraints:
  assumes "reachable db" and "r \<in> set (rows db)" and "order_id r \<noteq> 5"
  shows "passes_field_checks r \<and> data_model_constraints r"
  using reachable_rows_pass [OF assms(1)] reachable_no_nan [OF assms(1)] assms(2,3)
    passes_field_checks_constraints by blast

text \<open>
  Claim C1. Every order in the table satisfies the field constraints of the data model,
  that is, passes the field checks of the validator, the five sample rows included. The
  code does not do this: \<open>init_database\<close> inserts the sample rows without validating
  them, and the fifth has the item name \<open>USB-C Cable\<close>, whose hyphen (code point 45) is
  outside the pattern of \<open>item_name\<close>. The validator reports an error for that name.
\<close>

theorem seed_row_fails_field_checks:
  "reachable seeded_db
   \<and> item_name (last (rows seeded_db)) = ascii ''USB-C Cable''
   \<and> \<not> pattern F_item_name 45
   \<and> sanitize_string (PStr (ascii ''USB-C Cable'')) F_item_name
       = (Some (ascii ''USB-C Cable''), [str_error_msg F_item_name])
   \<and> \<not> passes_field_checks (last (rows seeded_db))
   \<and> \<not> data_model_constraints (last (rows seeded_db))"
proof -
  have l: "last (rows seeded_db) =
      \<lparr>order_id = 5, customer_name = ascii ''Mehedi HasaN'', item_name = ascii ''USB-C Cable'',
       quantity = NInt 3, total_price = NFloat (Finite (2997 / 100)), created_at = 0\<rparr>"
    by (simp add: seeded_db_def init_database_fresh sample_orders_def upt_rec)
  have s: "sanitize_string (PStr (ascii ''USB-C Cable'')) F_item_name
       = (Some (ascii ''USB-C Cable''), [str_error_msg F_item_name])"
    by (simp add: sanitize_string_def strip_def re_match_def ascii_def alnum_def py_isspace_def)
  have p: "\<not> pattern F_item_name 45"
    by (simp add: alnum_def py_isspace_def)
  have a: "\<not> list_all (pattern F_item_name) (ascii ''USB-C Cable'')"
    by (simp add: ascii_def alnum_def py_isspace_def)
  have f: "\<not> passes_field_checks (last (rows seeded_db))"
    unfolding l by (simp add: passes_field_checks_def s)
  have d: "\<not> data_model_constraints (last (rows seeded_db))"
    unfolding l using a by (simp add: data_model_constraints_def)
  from reachable_seeded_db l s p f d show ?thesis by simp
qed

end
